theory Spec2Isabelle
  imports Main
begin

section \<open>Errors, log records and process results\<close>

text \<open>
  The client (\<^verbatim>\<open>wgcage.go\<close>) is one function \<^verbatim>\<open>run\<close> that is entered three
  times: by the process the user starts, and by the two processes that are started
  from \<^verbatim>\<open>/proc/self/exe\<close>. Everything \<^verbatim>\<open>run\<close> does beyond returning an
  error is written into a trace of events; the answers of the operating system and of
  the libraries are read from a record \<open>world\<close>.
\<close>

datatype level = LevelDebug | LevelInfo | LevelWarn | LevelError

text \<open>
  The levels of \<^verbatim>\<open>log/slog\<close> are integers; a handler configured with a level prints
  the records at that level and above.
\<close>

fun level_value :: "level \<Rightarrow> int" where
  "level_value LevelDebug = - 4"
| "level_value LevelInfo = 0"
| "level_value LevelWarn = 4"
| "level_value LevelError = 8"

definition Enabled :: "level \<Rightarrow> level \<Rightarrow> bool" where
  "Enabled handler_level l = (level_value handler_level \<le> level_value l)"

text \<open>
  Go errors. \<open>ExitError c\<close> is an \<^verbatim>\<open>*exec.ExitError\<close> whose \<^verbatim>\<open>ExitCode()\<close>
  is \<open>c\<close>; \<open>LibError\<close> is an error returned by a library or system call;
  \<open>Errorf\<close> is \<^verbatim>\<open>fmt.Errorf\<close> without \<^verbatim>\<open>%w\<close> (also with \<^verbatim>\<open>%v\<close>, which
  keeps the text and drops the chain); \<open>Wrapf p e\<close> is
  \<^verbatim>\<open>fmt.Errorf("p: %w", e)\<close>.
\<close>

datatype err =
    ExitError int
  | LibError string
  | Errorf string
  | Wrapf string err

fun errors_As_ExitError :: "err \<Rightarrow> int option" where
  "errors_As_ExitError (ExitError c) = Some c"
| "errors_As_ExitError (Wrapf p e) = errors_As_ExitError e"
| "errors_As_ExitError (LibError m) = None"
| "errors_As_ExitError (Errorf m) = None"

fun Error :: "err \<Rightarrow> string" where
  "Error (ExitError c) = ''exit status''"
| "Error (LibError m) = m"
| "Error (Errorf m) = m"
| "Error (Wrapf p e) = p @ '': '' @ Error e"

record SysProcIDMap =
  ContainerID :: int
  HostID :: int
  Size :: int

record SysProcAttr =
  Cloneflags :: "string list"
  UidMappings :: "SysProcIDMap list"
  GidMappings :: "SysProcIDMap list"

datatype proto = tcp_ProtocolNumber | udp_ProtocolNumber | icmp_ProtocolNumber4 | icmp_ProtocolNumber6

text \<open>
  The calls \<^verbatim>\<open>run\<close> makes whose only answer is an error or none. The arguments
  kept are those the answer or a claim depends on.
\<close>

datatype op =
    netstack_CreateNetTUN string
  | device_NewDevice
  | dev_IpcSet
  | dev_Up
  | runtime_LockOSThread
  | runtime_UnlockOSThread
  | unix_Unshare_CLONE_NEWNET
  | water_New string
  | netlink_LinkByName string
  | netlink_LinkSetUp string
  | netlink_AddrAdd string string
  | netlink_RouteAdd string
  | overlay_Mount string string
  | mount_Remove
  | stack_New "proto list"
  | fdbased_New
  | tcp_NewForwarder
  | udp_NewForwarder
  | SetTransportProtocolHandler proto
  | CreateNIC
  | SetPromiscuousMode
  | SetSpoofing
  | SetRouteTable
  | unix_Setgid int
  | unix_Setuid int

datatype event =
    Slog level string
  | LogFatal string
  | GoPanic string
  | Do op
  | Start string "string list" "SysProcAttr option"
  | TargetExecd string "string list"

text \<open>
  What \<^verbatim>\<open>run\<close> ends with: \<^verbatim>\<open>nil\<close>, an error, or a panic of the Go runtime.
\<close>

datatype ret = Ok | Err err | Panic string

type_synonym result = "event list \<times> ret"

text \<open>
  A trace holds what a process printed and the calls it made. \<open>Slog l m\<close> is a record
  that the handler installed by \<^verbatim>\<open>slog.SetDefault\<close> printed; \<open>LogFatal m\<close> is the
  line of \<^verbatim>\<open>log.Fatal\<close> in \<^verbatim>\<open>main\<close>, printed; \<open>GoPanic m\<close> is the message of the
  Go runtime for a panic. A call of \<^verbatim>\<open>slog.Debug\<close> and its like under a handler of
  level \<open>lvl\<close> leaves a record only when the handler is enabled for it.
\<close>

definition slog :: "level \<Rightarrow> level \<Rightarrow> string \<Rightarrow> event list" where
  "slog lvl l m = (if Enabled lvl l then [Slog l m] else [])"

text \<open>
  What starting a program gives: it could not be started, or it ran (its events are
  written to the same terminal) and exited with a status, or was killed by a signal.
\<close>

datatype spawn_result =
    StartFails string
  | Exited "event list" nat
  | Signaled "event list"

datatype target_result = TStartFails string | TExited nat | TSignaled

record args =
  Tun :: string
  Subnet :: string
  Gateway :: string
  UID :: int
  GID :: int
  User :: string
  NoOverlay :: bool
  LogLevel :: string
  WgPubKey :: string
  WgPrivKeyFile :: string
  WgEndpoint :: string
  WgIP :: string
  Command :: "string list"

record user =
  Uid :: string
  Gid :: string

text \<open>
  The world of one run. \<open>answer\<close> gives the error of a call of \<open>op\<close> (\<open>None\<close>: it
  succeeded). The functions of the Go library and of \<^verbatim>\<open>go-arg\<close> that \<^verbatim>\<open>run\<close>
  calls are fields too: their code is not part of the repository. \<open>MustParse\<close> is
  \<^verbatim>\<open>arg.MustParse\<close> on a command line that parses (on one that does not, \<^verbatim>\<open>go-arg\<close>
  prints the usage and exits by itself, before any code of \<^verbatim>\<open>run\<close>); \<open>etc_IsDir\<close> is
  the test \<^verbatim>\<open>err == nil && st.IsDir()\<close> on \<^verbatim>\<open>os.Lstat("/etc")\<close>; \<open>start_self\<close> is
  the error of starting \<^verbatim>\<open>/proc/self/exe\<close>; \<open>target\<close> is how the program that the
  user asked for ends.
\<close>

record world =
  MustParse :: "string list \<Rightarrow> args"
  strings_ToLower :: "string \<Rightarrow> string"
  strconv_Atoi :: "string \<Rightarrow> string + int"
  strconv_Itoa :: "int \<Rightarrow> string"
  user_Lookup :: "string \<Rightarrow> string + user"
  os_Geteuid :: int
  os_Getegid :: int
  os_Getuid :: int
  os_Getgid :: int
  os_ReadFile :: "string \<Rightarrow> string + string"
  netip_ParseAddr :: "string \<Rightarrow> string option"
  base64_DecodeString :: "string \<Rightarrow> string option"
  netlink_ParseIPNet :: "string \<Rightarrow> string option"
  etc_IsDir :: bool
  answer :: "op \<Rightarrow> string option"
  start_self :: "string list \<Rightarrow> string option"
  target :: "string \<Rightarrow> string list \<Rightarrow> target_result"

section \<open>Sequencing\<close>

definition emit :: "event list \<Rightarrow> result \<Rightarrow> result" where
  "emit evs k = (evs @ fst k, snd k)"

text \<open>
  \<^verbatim>\<open>err := f(...); if err != nil { return wrap(err) }\<close>, then the rest \<open>k\<close>.
\<close>

definition call :: "world \<Rightarrow> op \<Rightarrow> (err \<Rightarrow> err) \<Rightarrow> result \<Rightarrow> result" where
  "call w f wrap k =
     (case answer w f of
        Some m \<Rightarrow> ([Do f], Err (wrap (LibError m)))
      | None \<Rightarrow> (Do f # fst k, snd k))"

text \<open>The same for a pure library function, which leaves no event.\<close>

definition check :: "string option \<Rightarrow> (err \<Rightarrow> err) \<Rightarrow> result \<Rightarrow> result" where
  "check r wrap k =
     (case r of
        Some m \<Rightarrow> ([], Err (wrap (LibError m)))
      | None \<Rightarrow> k)"

text \<open>A call that cannot fail.\<close>

definition invoke :: "op \<Rightarrow> result \<Rightarrow> result" where
  "invoke f k = (Do f # fst k, snd k)"

text \<open>\<^verbatim>\<open>if b { ... }\<close> around a step, then the rest.\<close>

definition only_if :: "bool \<Rightarrow> (result \<Rightarrow> result) \<Rightarrow> result \<Rightarrow> result" where
  "only_if b step k = (if b then step k else k)"

text \<open>\<^verbatim>\<open>defer f()\<close>: \<open>f\<close> runs when the rest returns, whatever it returns.\<close>

definition deferred :: "op \<Rightarrow> result \<Rightarrow> result" where
  "deferred f k = (fst k @ [Do f], snd k)"

text \<open>
  \<^verbatim>\<open>fmt.Errorf("p: %v", err)\<close>: the text of the error, without its chain.
\<close>

definition Errorf_v :: "string \<Rightarrow> err \<Rightarrow> err" where
  "Errorf_v p e = Errorf (p @ '': '' @ Error e)"

subsection \<open>\<^verbatim>\<open>os/exec\<close>\<close>

fun start_err :: "spawn_result \<Rightarrow> string option" where
  "start_err (StartFails m) = Some m"
| "start_err (Exited evs n) = None"
| "start_err (Signaled evs) = None"

fun child_events :: "spawn_result \<Rightarrow> event list" where
  "child_events (StartFails m) = []"
| "child_events (Exited evs n) = evs"
| "child_events (Signaled evs) = evs"

text \<open>
  \<^verbatim>\<open>cmd.Wait()\<close> of a started child: \<^verbatim>\<open>nil\<close> for exit status 0, otherwise an
  \<^verbatim>\<open>*exec.ExitError\<close>, whose \<^verbatim>\<open>ExitCode()\<close> is the status, or -1 for a child
  that a signal killed.
\<close>

fun wait_err :: "spawn_result \<Rightarrow> err option" where
  "wait_err (StartFails m) = None"
| "wait_err (Exited evs n) = (if n = 0 then None else Some (ExitError (int n)))"
| "wait_err (Signaled evs) = Some (ExitError (- 1))"

text \<open>
  \<^verbatim>\<open>cmd.Start()\<close> followed by \<^verbatim>\<open>cmd.Wait()\<close>, each with the wrapping of its
  error; \<^verbatim>\<open>cmd.Run()\<close> is the same with one wrapping for both.
\<close>

definition cmd_Start_Wait ::
  "(string \<Rightarrow> string list \<Rightarrow> spawn_result) \<Rightarrow> string \<Rightarrow> string list \<Rightarrow> SysProcAttr option \<Rightarrow>
   (err \<Rightarrow> err) \<Rightarrow> (err \<Rightarrow> err) \<Rightarrow> result" where
  "cmd_Start_Wait spawn path argv attr wrap_start wrap_wait =
     (let sr = spawn path argv in
      case start_err sr of
        Some m \<Rightarrow> ([Start path argv attr], Err (wrap_start (LibError m)))
      | None \<Rightarrow>
          (Start path argv attr # child_events sr,
           case wait_err sr of
             Some e \<Rightarrow> Err (wrap_wait e)
           | None \<Rightarrow> Ok))"

definition cmd_Run ::
  "(string \<Rightarrow> string list \<Rightarrow> spawn_result) \<Rightarrow> string \<Rightarrow> string list \<Rightarrow> SysProcAttr option \<Rightarrow>
   (err \<Rightarrow> err) \<Rightarrow> result" where
  "cmd_Run spawn path argv attr wrap = cmd_Start_Wait spawn path argv attr wrap wrap"

section \<open>The stages of \<^verbatim>\<open>run\<close>\<close>

definition HasPrefix :: "string \<Rightarrow> string \<Rightarrow> bool" where
  "HasPrefix s p = (length p \<le> length s \<and> take (length p) s = p)"

definition parse_level :: "string \<Rightarrow> level option" where
  "parse_level s =
     (if s = ''debug'' then Some LevelDebug
      else if s = ''info'' then Some LevelInfo
      else if s = ''warn'' \<or> s = ''warning'' then Some LevelWarn
      else if s = ''error'' then Some LevelError
      else None)"

subsection \<open>First stage\<close>

definition stage2_Args :: "world \<Rightarrow> int \<Rightarrow> int \<Rightarrow> string list \<Rightarrow> string list" where
  "stage2_Args w uid gid rest =
     [''httptap.stage.2'', ''--uid'', strconv_Itoa w uid, ''--gid'', strconv_Itoa w gid] @ rest"

definition stage2_attr :: "world \<Rightarrow> SysProcAttr" where
  "stage2_attr w =
     \<lparr>Cloneflags = [''CLONE_NEWUSER''],
      UidMappings = [\<lparr>ContainerID = 0, HostID = os_Getuid w, Size = 1\<rparr>],
      GidMappings = [\<lparr>ContainerID = 0, HostID = os_Getgid w, Size = 1\<rparr>]\<rparr>"

text \<open>The uid and gid to switch to later: the effective ones, or those of \<^verbatim>\<open>--user\<close>.\<close>

definition target_ids :: "world \<Rightarrow> args \<Rightarrow> err + int \<times> int" where
  "target_ids w a =
     (if User a = [] then Inr (os_Geteuid w, os_Getegid w)
      else
        case user_Lookup w (User a) of
          Inl m \<Rightarrow> Inl (Wrapf ''error looking up user'' (LibError m))
        | Inr u \<Rightarrow>
            (case strconv_Atoi w (Uid u) of
               Inl m \<Rightarrow> Inl (Wrapf ''error parsing user id as a number'' (LibError m))
             | Inr uid \<Rightarrow>
                 (case strconv_Atoi w (Gid u) of
                    Inl m \<Rightarrow> Inl (Wrapf ''error parsing group id as a number'' (LibError m))
                  | Inr gid \<Rightarrow> Inr (uid, gid))))"

definition stage1 ::
  "world \<Rightarrow> (string \<Rightarrow> string list \<Rightarrow> spawn_result) \<Rightarrow> level \<Rightarrow> args \<Rightarrow> string list \<Rightarrow> result" where
  "stage1 w spawn lvl a rest =
     emit (slog lvl LevelDebug ''at first stage, launching second stage in a new user namespace...'')
       (case target_ids w a of
          Inl e \<Rightarrow> ([], Err e)
        | Inr (uid, gid) \<Rightarrow>
            cmd_Run spawn ''/proc/self/exe'' (stage2_Args w uid gid rest) (Some (stage2_attr w))
              (Wrapf ''error re-executing ourselves in a new user namespace''))"

subsection \<open>Third stage\<close>

definition stage3 ::
  "world \<Rightarrow> (string \<Rightarrow> string list \<Rightarrow> spawn_result) \<Rightarrow> level \<Rightarrow> args \<Rightarrow> result" where
  "stage3 w spawn lvl a =
     emit (slog lvl LevelDebug ''at third stage...'')
       (only_if (GID a \<noteq> 0)
          (\<lambda>k. emit (slog lvl LevelDebug ''switching to gid'')
             (call w (unix_Setgid (GID a)) (Wrapf ''error switching to group'') k))
       (only_if (UID a \<noteq> 0)
          (\<lambda>k. emit (slog lvl LevelDebug ''switching to uid'')
             (call w (unix_Setuid (UID a)) (Wrapf ''error switching to user'') k))
       (emit (slog lvl LevelDebug ''third stage now in uid, gid, launching final subprocess...'')
          (case Command a of
             [] \<Rightarrow> ([], Panic ''index out of range [0] with length 0'')
           | c # cs \<Rightarrow>
               cmd_Run spawn c (Command a) None
                 (Wrapf ''error launching final subprocess from third stage'')))))"

subsection \<open>\<^verbatim>\<open>newWgProxy\<close>\<close>

text \<open>A result followed by the rest, when it is not an error (which is wrapped) or a panic.\<close>

definition and_then :: "result \<Rightarrow> (err \<Rightarrow> err) \<Rightarrow> result \<Rightarrow> result" where
  "and_then r wrap k =
     (case snd r of
        Ok \<Rightarrow> (fst r @ fst k, snd k)
      | Err e \<Rightarrow> (fst r, Err (wrap e))
      | Panic m \<Rightarrow> (fst r, Panic m))"

text \<open>
  \<^verbatim>\<open>netip.MustParseAddr\<close> panics on an address that does not parse; the errors of
  \<^verbatim>\<open>CreateNetTUN\<close>, \<^verbatim>\<open>IpcSet\<close> and \<^verbatim>\<open>Up\<close> are returned as they are.
\<close>

definition newWgProxy :: "world \<Rightarrow> string \<Rightarrow> string \<Rightarrow> string \<Rightarrow> string \<Rightarrow> result" where
  "newWgProxy w ourIP privateKey publicKey endpoint =
     (case netip_ParseAddr w ourIP of
        Some m \<Rightarrow> ([], Panic m)
      | None \<Rightarrow>
          call w (netstack_CreateNetTUN ourIP) (\<lambda>e. e)
          (check (base64_DecodeString w privateKey) (Wrapf ''invalid priv key'')
          (check (base64_DecodeString w publicKey) (Wrapf ''invalid priv key'')
          (invoke device_NewDevice
          (call w dev_IpcSet (\<lambda>e. e)
          (call w dev_Up (\<lambda>e. e)
          ([], Ok)))))))"

subsection \<open>Second stage\<close>

text \<open>
  \<^verbatim>\<open>err = f(...); if err != nil { slog.Debug(...) }\<close>: the error is logged and the
  rest runs all the same.
\<close>

definition ignoring :: "world \<Rightarrow> op \<Rightarrow> event list \<Rightarrow> result \<Rightarrow> result" where
  "ignoring w f evs k =
     (case answer w f of
        Some m \<Rightarrow> emit (Do f # evs) k
      | None \<Rightarrow> invoke f k)"

definition stage3_Args :: "world \<Rightarrow> args \<Rightarrow> string list" where
  "stage3_Args w a =
     [''httptap.stage.3'', ''--uid'', strconv_Itoa w (UID a), ''--gid'', strconv_Itoa w (GID a), ''--'']
     @ Command a"

definition stage3_attr :: "args \<Rightarrow> SysProcAttr" where
  "stage3_attr a =
     \<lparr>Cloneflags = [''CLONE_NEWUSER''],
      UidMappings = [\<lparr>ContainerID = UID a, HostID = 0, Size = 1\<rparr>],
      GidMappings = [\<lparr>ContainerID = GID a, HostID = 0, Size = 1\<rparr>]\<rparr>"

text \<open>
  The data plane that the second stage builds between the namespace and the third
  stage: the stack, the link endpoint, the forwarders, the handlers and the NIC. The
  forwarders' handlers run later, on packets; see the sections on \<^verbatim>\<open>ProxyConn\<close>
  and the ICMP handlers.
\<close>

definition data_plane :: "world \<Rightarrow> level \<Rightarrow> args \<Rightarrow> result \<Rightarrow> result" where
  "data_plane w lvl a k =
     emit (slog lvl LevelDebug ''listening on'')
     (invoke (stack_New [tcp_ProtocolNumber, udp_ProtocolNumber, icmp_ProtocolNumber4])
     (call w fdbased_New (Errorf_v ''error creating link from tun device file descriptor'')
     (invoke tcp_NewForwarder
     (invoke udp_NewForwarder
     (invoke (SetTransportProtocolHandler tcp_ProtocolNumber)
     (invoke (SetTransportProtocolHandler udp_ProtocolNumber)
     (invoke (SetTransportProtocolHandler icmp_ProtocolNumber4)
     (invoke (SetTransportProtocolHandler icmp_ProtocolNumber6)
     (call w CreateNIC (Errorf_v ''error creating NIC'')
     (call w SetPromiscuousMode (Errorf_v ''error activating promiscuous mode'')
     (call w SetSpoofing (Errorf_v ''error activating spoofing mode'')
     (invoke SetRouteTable k))))))))))))"

text \<open>
  The network namespace and what is set up in it, from \<^verbatim>\<open>runtime.LockOSThread\<close>
  to the overlay of \<^verbatim>\<open>/etc\<close>. The error of the default route of IPv6 is the one
  that is logged and not returned.
\<close>

definition namespace_setup :: "world \<Rightarrow> level \<Rightarrow> args \<Rightarrow> result \<Rightarrow> result" where
  "namespace_setup w lvl a k =
     invoke runtime_LockOSThread
     (deferred runtime_UnlockOSThread
     (call w unix_Unshare_CLONE_NEWNET (Wrapf ''error creating network namespace'')
     (call w (water_New (Tun a)) (Wrapf ''error creating tun device'')
     (call w (netlink_LinkByName (Tun a)) (Wrapf ''error finding link for new tun device'')
     (emit (slog lvl LevelDebug ''tun device has MTU'')
     (call w (netlink_LinkSetUp (Tun a)) (Wrapf ''error bringing up link'')
     (check (netlink_ParseIPNet w (Subnet a)) (Wrapf ''error parsing subnet'')
     (call w (netlink_AddrAdd (Tun a) (Subnet a)) (Wrapf ''error assign address to tun device'')
     (check (netlink_ParseIPNet w ''0.0.0.0/0'') (Wrapf ''error parsing global subnet'')
     (call w (netlink_RouteAdd ''0.0.0.0/0'') (Wrapf ''error creating default ipv4 route'')
     (check (netlink_ParseIPNet w ''::/0'') (Wrapf ''error parsing global subnet'')
     (ignoring w (netlink_RouteAdd ''::/0'')
        (slog lvl LevelDebug ''error creating default ipv6 route, ignoring'')
     (call w (netlink_LinkByName ''lo'') (Wrapf ''error finding link for loopback device'')
     (call w (netlink_LinkSetUp ''lo'') (Wrapf ''error bringing up link for loopback device'')
     (only_if (etc_IsDir w \<and> \<not> NoOverlay a)
        (\<lambda>k. emit (slog lvl LevelDebug ''overlaying /etc ...'')
           (call w (overlay_Mount ''/etc'' (''nameserver '' @ Gateway a @ [CHR 0x0A]))
              (Wrapf ''error setting up overlay'')
           (deferred mount_Remove k)))
       k)))))))))))))))"

text \<open>
  The second stage. (The source tests \<^verbatim>\<open>args.WgPrivKeyFile == ""\<close> twice in a row;
  the second test can never hold and is written once here.) The goroutines that the
  data plane starts run beside the rest; what they do is in the section on
  \<^verbatim>\<open>ProxyConn\<close> and is not part of this trace.
\<close>

definition stage2 ::
  "world \<Rightarrow> (string \<Rightarrow> string list \<Rightarrow> spawn_result) \<Rightarrow> level \<Rightarrow> args \<Rightarrow> result" where
  "stage2 w spawn lvl a =
     emit (slog lvl LevelDebug ''at second stage'')
       (if WgEndpoint a = [] then ([], Err (Errorf ''--wg-endpoint is required''))
        else if WgPubKey a = [] then ([], Err (Errorf ''--wg-public-key is required''))
        else if WgPrivKeyFile a = [] then ([], Err (Errorf ''--wg-private-key-file is required''))
        else
          case os_ReadFile w (WgPrivKeyFile a) of
            Inl m \<Rightarrow> ([], Err (Wrapf ''could not read'' (LibError m)))
          | Inr privKey \<Rightarrow>
              and_then (newWgProxy w (WgIP a) privKey (WgPubKey a) (WgEndpoint a))
                (Wrapf ''could not make wg prox'')
              (namespace_setup w lvl a
              (data_plane w lvl a
              (emit (slog lvl LevelDebug ''launching third stage targetting uid, gid...'')
              (cmd_Start_Wait spawn ''/proc/self/exe'' (stage3_Args w a) (Some (stage3_attr a))
                 (Wrapf ''error starting third stage subprocess'')
                 (Wrapf ''error running subprocess''))))))"

subsection \<open>\<^verbatim>\<open>run\<close> and \<^verbatim>\<open>main\<close>\<close>

text \<open>\<^verbatim>\<open>if len(args.Command) == 0 { args.Command = []string{"/bin/sh"} }\<close>\<close>

definition default_Command :: "args \<Rightarrow> args" where
  "default_Command a = (if Command a = [] then a\<lparr>Command := [''/bin/sh'']\<rparr> else a)"

text \<open>
  \<^verbatim>\<open>run\<close>. Beside its result it leaves the default logger: \<open>Some lvl\<close> when
  \<^verbatim>\<open>slog.SetDefault\<close> installed the handler of level \<open>lvl\<close>, \<open>None\<close> when \<^verbatim>\<open>run\<close>
  returned before it (an invalid log level). The stage is chosen by the two tests of
  \<^verbatim>\<open>os.Args[0]\<close>, in their order; indexing an empty \<^verbatim>\<open>os.Args\<close> panics.
\<close>

definition run ::
  "world \<Rightarrow> (string \<Rightarrow> string list \<Rightarrow> spawn_result) \<Rightarrow> string list \<Rightarrow> level option \<times> result" where
  "run w spawn os_Args =
     (let a = MustParse w os_Args in
      case parse_level (strings_ToLower w (LogLevel a)) of
        None \<Rightarrow>
          (None, ([], Err (Errorf ''invalid log level, must be one of: debug, info, warn, error'')))
      | Some lvl \<Rightarrow>
          (Some lvl,
           case os_Args of
             [] \<Rightarrow> ([], Panic ''index out of range [0] with length 0'')
           | a0 # rest \<Rightarrow>
               (if \<not> HasPrefix a0 ''httptap.stage.''
                then stage1 w spawn lvl (default_Command a) rest
                else if a0 = ''httptap.stage.3''
                then stage3 w spawn lvl (default_Command a)
                else stage2 w spawn lvl (default_Command a))))"

text \<open>\<^verbatim>\<open>os.Exit(c)\<close>: the exit status is the low byte of \<open>c\<close>.\<close>

definition os_Exit :: "int \<Rightarrow> nat" where
  "os_Exit c = nat (c mod 256)"

text \<open>
  \<^verbatim>\<open>log.Fatal(err)\<close> in \<^verbatim>\<open>main\<close>. The \<^verbatim>\<open>log\<close> package prints the line itself
  (to the standard output, as \<^verbatim>\<open>main\<close> set it) as long as no \<^verbatim>\<open>slog\<close> handler is
  installed. After \<^verbatim>\<open>slog.SetDefault\<close> the output of the \<^verbatim>\<open>log\<close> package goes
  through the installed handler as a record at the level of information, so a handler
  configured for warnings or errors drops it. \<^verbatim>\<open>log.Fatal\<close> exits with 1 either way.
\<close>

definition log_Fatal :: "level option \<Rightarrow> string \<Rightarrow> event list" where
  "log_Fatal logger m =
     (case logger of
        None \<Rightarrow> [LogFatal m]
      | Some lvl \<Rightarrow> (if Enabled lvl LevelInfo then [LogFatal m] else []))"

text \<open>
  \<^verbatim>\<open>main\<close>, from what \<^verbatim>\<open>run\<close> left: an error that is (or wraps) an
  \<^verbatim>\<open>*exec.ExitError\<close> exits with its code and prints nothing; any other error goes to
  \<^verbatim>\<open>log.Fatal\<close>. A panic is printed by the Go runtime, which exits with 2.
\<close>

definition main :: "level option \<times> result \<Rightarrow> event list \<times> nat" where
  "main lr =
     (let logger = fst lr; r = snd lr in
      case snd r of
        Ok \<Rightarrow> (fst r, 0)
      | Err e \<Rightarrow>
          (case errors_As_ExitError e of
             Some c \<Rightarrow> (fst r, os_Exit c)
           | None \<Rightarrow> (fst r @ log_Fatal logger (Error e), 1))
      | Panic m \<Rightarrow> (fst r @ [GoPanic m], 2))"

subsection \<open>The three processes of a run\<close>

text \<open>
  The program the user asked for is not modelled beyond how it ends; the event
  \<open>TargetExecd\<close> marks that it was started.
\<close>

definition target_process :: "world \<Rightarrow> string \<Rightarrow> string list \<Rightarrow> spawn_result" where
  "target_process w path argv =
     (case target w path argv of
        TStartFails m \<Rightarrow> StartFails m
      | TExited n \<Rightarrow> Exited [TargetExecd path argv] n
      | TSignaled \<Rightarrow> Signaled [TargetExecd path argv])"

text \<open>
  \<^verbatim>\<open>/proc/self/exe\<close> is this program: started with \<open>argv\<close>, it runs \<^verbatim>\<open>main\<close>,
  and what it starts itself is \<open>spawn\<close>.
\<close>

definition self_process ::
  "world \<Rightarrow> (string \<Rightarrow> string list \<Rightarrow> spawn_result) \<Rightarrow> string \<Rightarrow> string list \<Rightarrow> spawn_result" where
  "self_process w spawn path argv =
     (case start_self w argv of
        Some m \<Rightarrow> StartFails m
      | None \<Rightarrow> (let r = main (run w spawn argv) in Exited (fst r) (snd r)))"

definition stage3_process :: "world \<Rightarrow> string \<Rightarrow> string list \<Rightarrow> spawn_result" where
  "stage3_process w = self_process w (target_process w)"

definition stage2_process :: "world \<Rightarrow> string \<Rightarrow> string list \<Rightarrow> spawn_result" where
  "stage2_process w = self_process w (stage3_process w)"

definition wirecage :: "world \<Rightarrow> string list \<Rightarrow> event list \<times> nat" where
  "wirecage w os_Args = main (run w (stage2_process w) os_Args)"

section \<open>The proxy: \<^verbatim>\<open>ProxyConn\<close>\<close>

text \<open>
  \<^verbatim>\<open>ProxyConn\<close> receives the connection of the subprocess as a \<^verbatim>\<open>net.Conn\<close> and
  dials a second one; after each copy it asserts, unchecked, that the connection it
  wrote to is a \<^verbatim>\<open>CloseWriter\<close>. What decides the assertion is the dynamic type
  behind the interface. The types are those of gVisor's \<^verbatim>\<open>gonet\<close> package:
  \<^verbatim>\<open>gonet.NewUDPConn\<close> (the UDP forwarder) and \<^verbatim>\<open>DialUDPAddrPort\<close> give a
  \<^verbatim>\<open>*gonet.UDPConn\<close>, \<^verbatim>\<open>DialContextTCPAddrPort\<close> gives a \<^verbatim>\<open>*gonet.TCPConn\<close>.
  Of the two, only \<^verbatim>\<open>TCPConn\<close> declares a method \<^verbatim>\<open>CloseWrite\<close>; \<^verbatim>\<open>UDPConn\<close>
  declares \<^verbatim>\<open>Read\<close>, \<^verbatim>\<open>ReadFrom\<close>, \<^verbatim>\<open>Write\<close>, \<^verbatim>\<open>WriteTo\<close>, \<^verbatim>\<open>Close\<close>, the
  two addresses and the deadlines.
\<close>

datatype conn_type = gonet_TCPConn | gonet_UDPConn

fun CloseWriter :: "conn_type \<Rightarrow> bool" where
  "CloseWriter gonet_TCPConn = True"
| "CloseWriter gonet_UDPConn = False"

text \<open>The two ends of a flow: \<^verbatim>\<open>subprocess\<close> (TUN side) and \<^verbatim>\<open>conn\<close> (WireGuard side).\<close>

datatype side = Inner | Outer

datatype pevent =
    PSlog level string
  | Dial string
  | Close side
  | CopyStart side side
  | CopyDone side side
  | CloseWrite side
  | WaitDone
  | PPanic string

text \<open>
  How a call of \<^verbatim>\<open>ProxyConn\<close> ends: it returns; a panic ends the process; or
  \<^verbatim>\<open>wait.Wait()\<close> never returns, because a copy never does.
\<close>

datatype outcome = Returned | Crashed | Blocked

text \<open>
  The answers of the network to one flow: the error of the dial, the error of
  \<^verbatim>\<open>subprocess.Close()\<close>, and for each copy what \<^verbatim>\<open>io.Copy\<close> returns (bytes and
  error), or \<open>None\<close> when it never returns.
\<close>

record flow_env =
  dial_err :: "string option"
  Close_err :: "string option"
  copy_to_outer :: "(nat \<times> string option) option"
  copy_to_inner :: "(nat \<times> string option) option"

definition proxyBytes :: "nat \<times> string option \<Rightarrow> pevent" where
  "proxyBytes r =
     (case snd r of
        Some m \<Rightarrow> PSlog LevelError ''error copying bytes''
      | None \<Rightarrow> PSlog LevelDebug ''copied bytes'')"

text \<open>
  One of the two goroutines: \<^verbatim>\<open>proxyBytes(dst, src)\<close>, then
  \<^verbatim>\<open>dst.(CloseWriter).CloseWrite()\<close>, then the deferred \<^verbatim>\<open>wait.Done()\<close>. The
  assertion has no second result, so it panics on a type without the method.
\<close>

definition goroutine ::
  "side \<Rightarrow> side \<Rightarrow> conn_type \<Rightarrow> (nat \<times> string option) option \<Rightarrow> pevent list" where
  "goroutine dst src dst_type cp =
     (case cp of
        None \<Rightarrow> [CopyStart src dst]
      | Some r \<Rightarrow>
          [CopyStart src dst, CopyDone src dst, proxyBytes r] @
          (if CloseWriter dst_type then [CloseWrite dst, WaitDone]
           else [PPanic ''interface conversion: missing method CloseWrite'']))"

text \<open>
  The two goroutines run concurrently. A schedule says, step by step, which of them
  moves (\<open>True\<close>: the first); when the schedule is used up the first moves while it can.
  Every interleaving of the two is the run of some schedule.
\<close>

fun interleave :: "bool list \<Rightarrow> 'a list \<Rightarrow> 'a list \<Rightarrow> 'a list" where
  "interleave s [] ys = ys"
| "interleave s (x # xs) [] = x # xs"
| "interleave [] (x # xs) (y # ys) = x # interleave [] xs (y # ys)"
| "interleave (True # s) (x # xs) (y # ys) = x # interleave s xs (y # ys)"
| "interleave (False # s) (x # xs) (y # ys) = y # interleave s (x # xs) ys"

fun is_PPanic :: "pevent \<Rightarrow> bool" where
  "is_PPanic (PPanic m) = True"
| "is_PPanic (PSlog l m) = False"
| "is_PPanic (Dial n) = False"
| "is_PPanic (Close c) = False"
| "is_PPanic (CopyStart a b) = False"
| "is_PPanic (CopyDone a b) = False"
| "is_PPanic (CloseWrite c) = False"
| "is_PPanic WaitDone = False"

text \<open>A panic in a goroutine ends the process: nothing happens after it.\<close>

fun until_panic :: "pevent list \<Rightarrow> pevent list" where
  "until_panic [] = []"
| "until_panic (e # es) = (if is_PPanic e then [e] else e # until_panic es)"

definition dialed_type :: "string \<Rightarrow> conn_type" where
  "dialed_type network = (if network = ''tcp'' then gonet_TCPConn else gonet_UDPConn)"

definition ProxyConn ::
  "bool list \<Rightarrow> flow_env \<Rightarrow> string \<Rightarrow> conn_type \<Rightarrow> pevent list \<times> outcome" where
  "ProxyConn sched env network subprocess =
     (if network = ''tcp'' \<or> network = ''udp'' then
        (case dial_err env of
           Some m \<Rightarrow>
             ([Dial network, PSlog LevelDebug ''error dialing'', Close Inner] @
              (case Close_err env of
                 Some m' \<Rightarrow> [PSlog LevelDebug ''error proxying conn'']
               | None \<Rightarrow> []),
              Returned)
         | None \<Rightarrow>
             (let g1 = goroutine Inner Outer subprocess (copy_to_inner env);
                  g2 = goroutine Outer Inner (dialed_type network) (copy_to_outer env);
                  tr = until_panic (interleave sched g1 g2)
              in if list_ex is_PPanic tr
                 then ([Dial network, PSlog LevelDebug ''proxy start''] @ tr, Crashed)
                 else if count_list tr WaitDone = 2
                 then ([Dial network, PSlog LevelDebug ''proxy start''] @ tr @
                       [PSlog LevelDebug ''proxy done''], Returned)
                 else ([Dial network, PSlog LevelDebug ''proxy start''] @ tr, Blocked)))
      else ([PPanic network], Crashed))"

subsection \<open>The handler of the UDP forwarder\<close>

text \<open>
  The function given to \<^verbatim>\<open>udp.NewForwarder\<close>: it creates the endpoint, wraps it in
  a \<^verbatim>\<open>gonet.UDPConn\<close> and calls \<^verbatim>\<open>ProxyConn\<close> with \<^verbatim>\<open>"udp"\<close> and the address the
  datagram was sent to.
\<close>

definition udp_handler ::
  "bool list \<Rightarrow> string option \<Rightarrow> string option \<Rightarrow> flow_env \<Rightarrow> pevent list \<times> outcome" where
  "udp_handler sched CreateEndpoint_err ParseAddrPort_err env =
     (case CreateEndpoint_err of
        Some m \<Rightarrow>
          ([PSlog LevelDebug ''at UDP forwarder'', PSlog LevelError ''error creating udp endpoint''],
           Returned)
      | None \<Rightarrow>
          (case ParseAddrPort_err of
             Some m \<Rightarrow>
               ([PSlog LevelDebug ''at UDP forwarder'', PSlog LevelError ''invalid localaddr''],
                Returned)
           | None \<Rightarrow>
               (let r = ProxyConn sched env ''udp'' gonet_UDPConn
                in (PSlog LevelDebug ''at UDP forwarder'' # fst r, snd r))))"

section \<open>The ICMP handlers\<close>

record TransportEndpointID =
  LocalPort :: nat
  LocalAddress :: string
  RemotePort :: nat
  RemoteAddress :: string

text \<open>
  The two functions given to \<^verbatim>\<open>SetTransportProtocolHandler\<close> for
  \<^verbatim>\<open>icmp.ProtocolNumber4\<close> and \<^verbatim>\<open>icmp.ProtocolNumber6\<close>. Each returns what it
  did (its events) and its \<^verbatim>\<open>bool\<close>; the source's comment on \<^verbatim>\<open>false\<close> is: the
  packet was handled and no error handler needs to be invoked.
\<close>

text \<open>
  Whether a handler is ever called is decided by gVisor's stack, which keeps one default
  handler for each transport protocol it was created with: \<^verbatim>\<open>stack.New\<close> is given the
  protocols, and \<^verbatim>\<open>SetTransportProtocolHandler(p, h)\<close> stores \<open>h\<close> when the stack has
  the protocol \<open>p\<close> and does nothing when it has not. \<open>handled_protocols\<close> reads from a
  trace the protocols for which a handler was stored, the last first.
\<close>

fun register :: "proto list \<times> proto list \<Rightarrow> event \<Rightarrow> proto list \<times> proto list" where
  "register st (Do (stack_New ps)) = (ps, [])"
| "register st (Do (SetTransportProtocolHandler p)) =
     (if p \<in> set (fst st) then (fst st, p # snd st) else st)"
| "register st e = st"

definition handled_protocols :: "event list \<Rightarrow> proto list" where
  "handled_protocols tr = snd (foldl register ([], []) tr)"

definition icmp4_handler :: "TransportEndpointID \<Rightarrow> 'pb \<Rightarrow> pevent list \<times> bool" where
  "icmp4_handler tid pb =
     ([PSlog LevelDebug (''got icmp packet '' @ RemoteAddress tid @ '' => '' @ LocalAddress tid)],
      False)"

definition icmp6_handler :: "TransportEndpointID \<Rightarrow> 'pb \<Rightarrow> pevent list \<times> bool" where
  "icmp6_handler tid pb =
     ([PSlog LevelDebug (''got icmp6 packet '' @ RemoteAddress tid @ '' => '' @ LocalAddress tid)],
      False)"

section \<open>Reading a trace\<close>

text \<open>
  What a run prints as an error: the line of \<^verbatim>\<open>log.Fatal\<close>, the panic message of
  the Go runtime, and a log record at the level of errors.
\<close>

fun error_output :: "event \<Rightarrow> bool" where
  "error_output (LogFatal m) = True"
| "error_output (GoPanic m) = True"
| "error_output (Slog l m) = (l = LevelError)"
| "error_output (Do f) = False"
| "error_output (Start p a at) = False"
| "error_output (TargetExecd p a) = False"

text \<open>
  The events that \<^verbatim>\<open>run\<close> itself leaves: debug records, calls, and the start of a
  child. The other events of a trace come from the children.
\<close>

fun own_event :: "event \<Rightarrow> bool" where
  "own_event (Slog l m) = (l = LevelDebug)"
| "own_event (Do f) = True"
| "own_event (Start p a at) = True"
| "own_event (LogFatal m) = False"
| "own_event (GoPanic m) = False"
| "own_event (TargetExecd p a) = False"

definition foreign :: "event list \<Rightarrow> event list" where
  "foreign tr = filter (\<lambda>e. \<not> own_event e) tr"

text \<open>An end of \<^verbatim>\<open>run\<close> that \<^verbatim>\<open>main\<close> prints: an error outside \<^verbatim>\<open>os/exec\<close>, or a panic.\<close>

fun printed_failure :: "ret \<Rightarrow> bool" where
  "printed_failure Ok = False"
| "printed_failure (Err e) = (errors_As_ExitError e = None)"
| "printed_failure (Panic m) = True"

text \<open>
  An end of \<^verbatim>\<open>run\<close> that passes on how the child ended: \<^verbatim>\<open>nil\<close> for status 0,
  otherwise an error in which \<^verbatim>\<open>errors.As\<close> finds the child's \<^verbatim>\<open>*exec.ExitError\<close>.
\<close>

fun passes_on :: "spawn_result \<Rightarrow> ret \<Rightarrow> bool" where
  "passes_on sr Ok = (wait_err sr = None)"
| "passes_on sr (Err e) = (wait_err sr \<noteq> None \<and> errors_As_ExitError e = errors_As_ExitError (the (wait_err sr)))"
| "passes_on sr (Panic m) = False"

text \<open>
  The two shapes of a result of \<^verbatim>\<open>run\<close>: it failed on its own, before any child ran;
  or one child ran, and the result passes its end on.
\<close>

definition supervised :: "(string \<Rightarrow> string list \<Rightarrow> spawn_result) \<Rightarrow> result \<Rightarrow> bool" where
  "supervised spawn r =
     ((foreign (fst r) = [] \<and> printed_failure (snd r)) \<or>
      (\<exists>path argv. start_err (spawn path argv) = None \<and>
         foreign (fst r) = foreign (child_events (spawn path argv)) \<and>
         passes_on (spawn path argv) (snd r)))"

text \<open>
  Three properties of how a child ends, for the program asked for at \<open>p\<close> with
  arguments \<open>a\<close>. \<open>exits_as\<close>: a child in which that program ran exits with the
  status \<open>N\<close> and prints no error. \<open>fails_nonzero\<close>: a child in which no program asked
  for ran could not be started, or exits with a status from 1 to 255. \<open>fails_loudly\<close>:
  such a child, when it was started, has also printed an error.
\<close>

definition exits_as :: "string \<Rightarrow> string list \<Rightarrow> nat \<Rightarrow> spawn_result \<Rightarrow> bool" where
  "exits_as p a N sr =
     (TargetExecd p a \<in> set (child_events sr) \<longrightarrow>
        (\<exists>evs. sr = Exited evs N \<and> (\<forall>e\<in>set evs. \<not> error_output e)))"

definition fails_nonzero :: "spawn_result \<Rightarrow> bool" where
  "fails_nonzero sr =
     ((\<forall>p a. TargetExecd p a \<notin> set (child_events sr)) \<longrightarrow>
        (\<exists>m. sr = StartFails m) \<or>
        (\<exists>evs n. sr = Exited evs n \<and> 0 < n \<and> n < 256))"

definition fails_loudly :: "spawn_result \<Rightarrow> bool" where
  "fails_loudly sr =
     ((\<forall>p a. TargetExecd p a \<notin> set (child_events sr)) \<longrightarrow>
        (\<exists>m. sr = StartFails m) \<or>
        (\<exists>evs n. sr = Exited evs n \<and> 0 < n \<and> n < 256 \<and> (\<exists>e\<in>set evs. error_output e)))"

text \<open>
  A world in which no process of the run is configured above the level of information:
  every log level that parses is \<^verbatim>\<open>debug\<close> or \<^verbatim>\<open>info\<close>.
\<close>

definition talkative :: "world \<Rightarrow> bool" where
  "talkative w =
     (\<forall>argv lvl. parse_level (strings_ToLower w (LogLevel (MustParse w argv))) = Some lvl \<longrightarrow>
        Enabled lvl LevelInfo)"

text \<open>What a process printed, as opposed to the calls it made.\<close>

fun printed :: "event \<Rightarrow> bool" where
  "printed (Slog l m) = True"
| "printed (LogFatal m) = True"
| "printed (GoPanic m) = True"
| "printed (Do f) = False"
| "printed (Start p a at) = False"
| "printed (TargetExecd p a) = False"

text \<open>Two results that return the same and leave the same trace, the event \<open>x\<close> apart.\<close>

definition apart_from :: "event \<Rightarrow> result \<Rightarrow> result \<Rightarrow> bool" where
  "apart_from x k' k =
     (snd k' = snd k \<and> filter (\<lambda>e. e \<noteq> x) (fst k') = filter (\<lambda>e. e \<noteq> x) (fst k))"

text \<open>In a trace, \<open>y\<close> does not occur before the first \<open>x\<close>.\<close>

definition precedes :: "'a \<Rightarrow> 'a \<Rightarrow> 'a list \<Rightarrow> bool" where
  "precedes x y tr = (y \<notin> set (takeWhile (\<lambda>e. e \<noteq> x) tr))"

fun is_Start :: "event \<Rightarrow> bool" where
  "is_Start (Start p a at) = True"
| "is_Start (Slog l m) = False"
| "is_Start (LogFatal m) = False"
| "is_Start (GoPanic m) = False"
| "is_Start (Do f) = False"
| "is_Start (TargetExecd p a) = False"

definition before_exec :: "event list \<Rightarrow> event list" where
  "before_exec tr = takeWhile (\<lambda>e. \<not> is_Start e) tr"

text \<open>The calls of \<^verbatim>\<open>setgid\<close> and \<^verbatim>\<open>setuid\<close> in a trace, in their order.\<close>

fun cred_calls :: "event list \<Rightarrow> op list" where
  "cred_calls [] = []"
| "cred_calls (Do (unix_Setgid g) # tr) = unix_Setgid g # cred_calls tr"
| "cred_calls (Do (unix_Setuid u) # tr) = unix_Setuid u # cred_calls tr"
| "cred_calls (e # tr) = cred_calls tr"



section \<open>Concrete runs\<close>

definition demo_args :: args where
  "demo_args =
     \<lparr>Tun = ''wirecage'', Subnet = ''10.1.2.100/24'', Gateway = ''10.1.2.1'',
      UID = 1000, GID = 1000, User = [], NoOverlay = False, LogLevel = ''info'',
      WgPubKey = ''cHVi'', WgPrivKeyFile = ''wg.key'', WgEndpoint = ''127.0.0.1:51820'',
      WgIP = ''10.200.100.2'', Command = [''sh'', ''-c'', ''exit 42'']\<rparr>"

text \<open>
  A world in which every call succeeds and the program asked for exits with 42. Its
  \<open>MustParse\<close> knows one command line.
\<close>

definition demo_world :: world where
  "demo_world =
     \<lparr>MustParse = (\<lambda>argv. demo_args), strings_ToLower = (\<lambda>s. s),
      strconv_Atoi = (\<lambda>s. Inr 1000), strconv_Itoa = (\<lambda>i. ''1000''),
      user_Lookup = (\<lambda>s. Inl ''unknown user''),
      os_Geteuid = 1000, os_Getegid = 1000, os_Getuid = 1000, os_Getgid = 1000,
      os_ReadFile = (\<lambda>p. Inr ''a2V5''), netip_ParseAddr = (\<lambda>s. None),
      base64_DecodeString = (\<lambda>s. None), netlink_ParseIPNet = (\<lambda>s. None),
      etc_IsDir = True, answer = (\<lambda>f. None), start_self = (\<lambda>argv. None),
      target = (\<lambda>p argv. TExited 42)\<rparr>"

text \<open>
  The same world at the log level \<^verbatim>\<open>debug\<close>; the third stage is started without the
  option and runs at \<^verbatim>\<open>info\<close>.
\<close>

definition debug_world :: world where
  "debug_world =
     demo_world\<lparr>MustParse :=
       (\<lambda>argv. if take 1 argv = [''httptap.stage.3''] then demo_args
                else demo_args\<lparr>LogLevel := ''debug''\<rparr>)\<rparr>"

text \<open>
  A run with \<^verbatim>\<open>--log-level error\<close> and without \<^verbatim>\<open>--wg-endpoint\<close>: the second stage
  fails on the missing option.
\<close>

definition silent_world :: world where
  "silent_world =
     demo_world\<lparr>MustParse := (\<lambda>argv. demo_args\<lparr>LogLevel := ''error'', WgEndpoint := []\<rparr>)\<rparr>"

definition silent_Args :: "string list" where
  "silent_Args = [''wirecage'', ''--log-level'', ''error'', ''--'', ''sh'', ''-c'', ''exit 42'']"



definition demo_Args :: "string list" where
  "demo_Args = [''wirecage'', ''--wg-endpoint'', ''127.0.0.1:51820'', ''--'', ''sh'', ''-c'', ''exit 42'']"

text \<open>The same world without IPv6: the default route of \<^verbatim>\<open>::/0\<close> cannot be added.\<close>

definition no_ipv6_world :: world where
  "no_ipv6_world =
     demo_world\<lparr>answer := (\<lambda>f. if f = netlink_RouteAdd ''::/0'' then Some ''address family not supported'' else None)\<rparr>"

text \<open>The same world in which the IPv4 default route cannot be added.\<close>

definition no_route_world :: world where
  "no_route_world =
     demo_world\<lparr>answer := (\<lambda>f. if f = netlink_RouteAdd ''0.0.0.0/0'' then Some ''operation not permitted'' else None)\<rparr>"

text \<open>A world without the private key file.\<close>

definition no_key_world :: world where
  "no_key_world = demo_world\<lparr>os_ReadFile := (\<lambda>p. Inl ''no such file or directory'')\<rparr>"


text \<open>
  A UDP flow to a closed port: the dial succeeds (UDP is connectionless), the datagram
  of the subprocess is sent on, and the read on the dialled connection fails with
  the ICMP answer, so both copies return.
\<close>

definition udp_refused :: flow_env where
  "udp_refused =
     \<lparr>dial_err = None, Close_err = None,
      copy_to_outer = Some (40, Some ''use of closed network connection''),
      copy_to_inner = Some (0, Some ''connection refused'')\<rparr>"

text \<open>A TCP flow that both sides close in turn, and one whose dial is refused.\<close>

definition tcp_closed :: flow_env where
  "tcp_closed =
     \<lparr>dial_err = None, Close_err = None,
      copy_to_outer = Some (120, None), copy_to_inner = Some (5, None)\<rparr>"

definition dial_refused :: flow_env where
  "dial_refused =
     \<lparr>dial_err = Some ''connection refused'', Close_err = None,
      copy_to_outer = None, copy_to_inner = None\<rparr>"

section \<open>Laws of sequencing\<close>

lemma fst_emit: "fst (emit evs k) = evs @ fst k" by (simp add: emit_def)
lemma snd_emit: "snd (emit evs k) = snd k" by (simp add: emit_def)
lemma fst_call: "fst (call w f wrap k) = Do f # (case answer w f of Some m \<Rightarrow> [] | None \<Rightarrow> fst k)"
  by (simp add: call_def split: option.splits)
lemma snd_call: "snd (call w f wrap k) = (case answer w f of Some m \<Rightarrow> Err (wrap (LibError m)) | None \<Rightarrow> snd k)"
  by (simp add: call_def split: option.splits)
lemma fst_check: "fst (check r wrap k) = (case r of Some m \<Rightarrow> [] | None \<Rightarrow> fst k)"
  by (simp add: check_def split: option.splits)
lemma snd_check: "snd (check r wrap k) = (case r of Some m \<Rightarrow> Err (wrap (LibError m)) | None \<Rightarrow> snd k)"
  by (simp add: check_def split: option.splits)
lemma fst_invoke: "fst (invoke f k) = Do f # fst k" by (simp add: invoke_def)
lemma snd_invoke: "snd (invoke f k) = snd k" by (simp add: invoke_def)
lemma fst_deferred: "fst (deferred f k) = fst k @ [Do f]" by (simp add: deferred_def)
lemma snd_deferred: "snd (deferred f k) = snd k" by (simp add: deferred_def)
lemma fst_ignoring: "fst (ignoring w f evs k) = Do f # (case answer w f of Some m \<Rightarrow> evs | None \<Rightarrow> []) @ fst k"
  by (simp add: ignoring_def emit_def invoke_def split: option.splits)
lemma snd_ignoring: "snd (ignoring w f evs k) = snd k"
  by (simp add: ignoring_def emit_def invoke_def split: option.splits)

lemma foreign_Nil: "foreign [] = []" by (simp add: foreign_def)
lemma foreign_append: "foreign (xs @ ys) = foreign xs @ foreign ys" by (simp add: foreign_def)
lemma foreign_Cons: "foreign (e # tr) = (if own_event e then foreign tr else e # foreign tr)" by (simp add: foreign_def)
lemma foreign_own: "list_all own_event evs \<Longrightarrow> foreign evs = []"
  by (induction evs) (simp_all add: foreign_def)


lemma own_slog: "list_all own_event (slog lvl LevelDebug m)"
  by (simp add: slog_def)

lemma supervised_fail: "printed_failure r \<Longrightarrow> supervised spawn ([], r)"
  by (simp add: supervised_def foreign_def)

lemma supervised_emit: "list_all own_event evs \<Longrightarrow> supervised spawn k \<Longrightarrow> supervised spawn (emit evs k)"
  by (simp add: supervised_def emit_def foreign_append foreign_own)

lemma supervised_call:
  "(\<And>m. errors_As_ExitError (wrap (LibError m)) = None) \<Longrightarrow> supervised spawn k \<Longrightarrow> supervised spawn (call w f wrap k)"
  by (auto simp add: supervised_def call_def foreign_Cons foreign_Nil split: option.splits)

lemma supervised_check:
  "(\<And>m. errors_As_ExitError (wrap (LibError m)) = None) \<Longrightarrow> supervised spawn k \<Longrightarrow> supervised spawn (check r wrap k)"
  by (auto simp add: supervised_def check_def foreign_Nil split: option.splits)

lemma supervised_invoke: "supervised spawn k \<Longrightarrow> supervised spawn (invoke f k)"
  by (simp add: supervised_def invoke_def foreign_Cons)

lemma supervised_deferred: "supervised spawn k \<Longrightarrow> supervised spawn (deferred f k)"
  by (simp add: supervised_def deferred_def foreign_append foreign_Cons foreign_Nil)

lemma supervised_ignoring:
  "list_all own_event evs \<Longrightarrow> supervised spawn k \<Longrightarrow> supervised spawn (ignoring w f evs k)"
  by (auto simp add: ignoring_def supervised_invoke supervised_emit split: option.splits)

lemma supervised_only_if:
  "(\<And>k'. supervised spawn k' \<Longrightarrow> supervised spawn (step k')) \<Longrightarrow> supervised spawn k \<Longrightarrow> supervised spawn (only_if b step k)"
  by (simp add: only_if_def)

lemma supervised_and_then:
  assumes "foreign (fst r) = []" and "snd r = Ok \<or> printed_failure (snd r)"
    and "\<And>e. errors_As_ExitError (wrap e) = errors_As_ExitError e"
    and "supervised spawn k"
  shows "supervised spawn (and_then r wrap k)"
proof (cases "snd r")
  case Ok
  with assms(1,4) show ?thesis
    by (simp add: and_then_def supervised_def foreign_append)
next
  case (Err e)
  with assms(1,2,3) show ?thesis
    by (simp add: and_then_def supervised_def)
next
  case (Panic m)
  with assms(1) show ?thesis
    by (simp add: and_then_def supervised_def)
qed

lemma supervised_cmd_Start_Wait:
  "supervised spawn (cmd_Start_Wait spawn path argv attr (Wrapf p) (Wrapf q))"
proof (cases "start_err (spawn path argv)")
  case (Some m)
  then show ?thesis
    by (simp add: cmd_Start_Wait_def Let_def supervised_def foreign_Cons foreign_Nil)
next
  case None
  have "foreign (fst (cmd_Start_Wait spawn path argv attr (Wrapf p) (Wrapf q))) = foreign (child_events (spawn path argv))"
    using None by (simp add: cmd_Start_Wait_def Let_def foreign_Cons)
  moreover have "passes_on (spawn path argv) (snd (cmd_Start_Wait spawn path argv attr (Wrapf p) (Wrapf q)))"
    using None by (simp add: cmd_Start_Wait_def Let_def split: option.splits)
  ultimately show ?thesis
    using None unfolding supervised_def by blast
qed

lemma newWgProxy_foreign: "foreign (fst (newWgProxy w ip priv pub ep)) = []"
  by (simp add: newWgProxy_def fst_call snd_call fst_check snd_check fst_invoke snd_invoke
      foreign_Cons foreign_Nil split: option.splits)

lemma newWgProxy_ends:
  "snd (newWgProxy w ip priv pub ep) = Ok \<or> printed_failure (snd (newWgProxy w ip priv pub ep))"
  by (simp add: newWgProxy_def fst_call snd_call fst_check snd_check fst_invoke snd_invoke
      foreign_Cons foreign_Nil split: option.splits)

lemma supervised_stage1: "supervised spawn (stage1 w spawn lvl a rest)"
  unfolding stage1_def cmd_Run_def
  by (intro supervised_emit own_slog)
     (auto simp: target_ids_def supervised_cmd_Start_Wait intro!: supervised_fail split: sum.splits)

lemma supervised_stage3: "supervised spawn (stage3 w spawn lvl a)"
  unfolding stage3_def cmd_Run_def
  by (intro supervised_emit supervised_only_if supervised_call own_slog)
     (auto simp: supervised_cmd_Start_Wait intro!: supervised_fail split: list.splits)

lemma supervised_namespace_setup:
  "supervised spawn k \<Longrightarrow> supervised spawn (namespace_setup w lvl a k)"
  unfolding namespace_setup_def
  by (intro supervised_emit supervised_only_if supervised_call supervised_check supervised_invoke
      supervised_deferred supervised_ignoring own_slog) simp_all

lemma supervised_data_plane:
  "supervised spawn k \<Longrightarrow> supervised spawn (data_plane w lvl a k)"
  unfolding data_plane_def
  by (intro supervised_emit supervised_call supervised_invoke own_slog) (simp_all add: Errorf_v_def)

lemma supervised_stage2: "supervised spawn (stage2 w spawn lvl a)"
proof -
  have tail: "supervised spawn
     (namespace_setup w lvl a
       (data_plane w lvl a
         (emit (slog lvl LevelDebug ''launching third stage targetting uid, gid...'')
           (cmd_Start_Wait spawn ''/proc/self/exe'' (stage3_Args w a) (Some (stage3_attr a))
              (Wrapf ''error starting third stage subprocess'')
              (Wrapf ''error running subprocess'')))))"
    by (intro supervised_namespace_setup supervised_data_plane supervised_emit
        supervised_cmd_Start_Wait own_slog)
  have wg: "supervised spawn
     (and_then (newWgProxy w (WgIP a) priv (WgPubKey a) (WgEndpoint a)) (Wrapf ''could not make wg prox'')
       (namespace_setup w lvl a
         (data_plane w lvl a
           (emit (slog lvl LevelDebug ''launching third stage targetting uid, gid...'')
             (cmd_Start_Wait spawn ''/proc/self/exe'' (stage3_Args w a) (Some (stage3_attr a))
                (Wrapf ''error starting third stage subprocess'')
                (Wrapf ''error running subprocess''))))))" for priv
    by (rule supervised_and_then [OF newWgProxy_foreign newWgProxy_ends _ tail]) simp
  show ?thesis
    unfolding stage2_def
    by (intro supervised_emit own_slog)
       (auto intro!: supervised_fail wg split: sum.splits)
qed

lemma supervised_run: "supervised spawn (snd (run w spawn os_Args))"
  by (auto simp: run_def Let_def supervised_stage1 supervised_stage2 supervised_stage3
      intro!: supervised_fail split: option.splits list.splits)

lemma fst_run:
  "fst (run w spawn os_Args) = parse_level (strings_ToLower w (LogLevel (MustParse w os_Args)))"
  by (simp add: run_def Let_def split: option.splits)

section \<open>Exit codes\<close>

lemma in_foreign: "e \<in> set (foreign tr) \<longleftrightarrow> e \<in> set tr \<and> \<not> own_event e"
  by (auto simp: foreign_def)

lemma error_output_foreign: "error_output e \<Longrightarrow> \<not> own_event e"
  by (cases e) auto

lemma main_passes_on:
  assumes "passes_on sr (snd r)"
  shows "main (lg, r) =
    (fst r, case wait_err sr of None \<Rightarrow> 0 | Some e \<Rightarrow> os_Exit (the (errors_As_ExitError e)))"
proof (cases "snd r")
  case Ok
  with assms show ?thesis by (simp add: main_def)
next
  case (Err e)
  with assms obtain e' where w: "wait_err sr = Some e'" and eq: "errors_As_ExitError e = errors_As_ExitError e'"
    by auto
  from w have "\<exists>c. e' = ExitError c"
    by (cases sr) (auto split: if_splits)
  then obtain c where "e' = ExitError c" ..
  with Err w eq show ?thesis by (simp add: main_def)
next
  case (Panic m)
  with assms show ?thesis by simp
qed

text \<open>
  A failure of \<^verbatim>\<open>run\<close> itself: \<^verbatim>\<open>main\<close> exits with 1 or 2, and adds to the trace at
  most the one line of the error.
\<close>

lemma main_printed_failure:
  assumes "printed_failure (snd r)"
  shows "\<exists>evs. fst (main (lg, r)) = fst r @ evs \<and> list_all error_output evs \<and>
           (snd (main (lg, r)) = 1 \<or> snd (main (lg, r)) = 2)"
proof (cases "snd r")
  case Ok
  with assms show ?thesis by simp
next
  case (Err e)
  with assms show ?thesis by (simp add: main_def log_Fatal_def split: option.splits)
next
  case (Panic m)
  then show ?thesis by (simp add: main_def)
qed

text \<open>The line is printed when the logger lets records at the level of information through.\<close>

lemma main_printed_failure_loud:
  assumes "printed_failure (snd r)" and "\<And>lvl. lg = Some lvl \<Longrightarrow> Enabled lvl LevelInfo"
  shows "\<exists>e. error_output e \<and> fst (main (lg, r)) = fst r @ [e]"
proof (cases "snd r")
  case Ok
  with assms show ?thesis by simp
next
  case (Err e)
  with assms show ?thesis by (cases lg) (simp_all add: main_def log_Fatal_def)
next
  case (Panic m)
  then show ?thesis by (simp add: main_def)
qed

lemma main_exits_as:
  assumes sup: "supervised spawn r"
    and ch: "\<And>path argv. exits_as p a N (spawn path argv)"
    and N: "0 < N" "N < 256"
  shows "exits_as p a N (Exited (fst (main (lg, r))) (snd (main (lg, r))))"
  unfolding exits_as_def
proof
  assume "TargetExecd p a \<in> set (child_events (Exited (fst (main (lg, r))) (snd (main (lg, r)))))"
  then have ex: "TargetExecd p a \<in> set (fst (main (lg, r)))" by simp
  from sup consider
      (own) "foreign (fst r) = []" "printed_failure (snd r)"
    | (child) path argv where "start_err (spawn path argv) = None"
        "foreign (fst r) = foreign (child_events (spawn path argv))"
        "passes_on (spawn path argv) (snd r)"
    unfolding supervised_def by blast
  then show "\<exists>evs. Exited (fst (main (lg, r))) (snd (main (lg, r))) = Exited evs N \<and>
      (\<forall>e\<in>set evs. \<not> error_output e)"
  proof cases
    case own
    from main_printed_failure [OF own(2), of lg] obtain evs where
      e: "fst (main (lg, r)) = fst r @ evs" "list_all error_output evs" by blast
    with ex have "TargetExecd p a \<in> set (fst r)" by (auto simp: list_all_iff)
    then have "TargetExecd p a \<in> set (foreign (fst r))" by (simp add: in_foreign)
    with own(1) show ?thesis by simp
  next
    case child
    let ?sr = "spawn path argv"
    note m = main_passes_on [OF child(3), of lg]
    from ex m have "TargetExecd p a \<in> set (fst r)" by simp
    then have "TargetExecd p a \<in> set (foreign (fst r))" by (simp add: in_foreign)
    with child(2) have "TargetExecd p a \<in> set (child_events ?sr)" by (simp add: in_foreign)
    with ch [of path argv] obtain evs where
      sr: "?sr = Exited evs N" and quiet: "\<forall>e\<in>set evs. \<not> error_output e"
      unfolding exits_as_def by blast
    from sr N m have code: "snd (main (lg, r)) = N" by (simp add: os_Exit_def)
    have "\<not> error_output e" if "e \<in> set (fst r)" for e
    proof
      assume eo: "error_output e"
      with that have "e \<in> set (foreign (fst r))" by (simp add: in_foreign error_output_foreign)
      with child(2) sr have "e \<in> set evs" by (simp add: in_foreign)
      with quiet eo show False by blast
    qed
    with m code show ?thesis by simp
  qed
qed

lemma main_fails:
  assumes sup: "supervised spawn r"
    and none: "\<And>p a. TargetExecd p a \<notin> set (fst (main (lg, r)))"
  shows "(foreign (fst r) = [] \<and> printed_failure (snd r)) \<or>
         (\<exists>path argv. start_err (spawn path argv) = None \<and>
            foreign (fst r) = foreign (child_events (spawn path argv)) \<and>
            (\<forall>p a. TargetExecd p a \<notin> set (child_events (spawn path argv))) \<and>
            main (lg, r) = (fst r, case wait_err (spawn path argv) of None \<Rightarrow> 0
                                   | Some e \<Rightarrow> os_Exit (the (errors_As_ExitError e))))"
proof -
  from sup consider
      (own) "foreign (fst r) = []" "printed_failure (snd r)"
    | (child) path argv where "start_err (spawn path argv) = None"
        "foreign (fst r) = foreign (child_events (spawn path argv))"
        "passes_on (spawn path argv) (snd r)"
    unfolding supervised_def by blast
  then show ?thesis
  proof cases
    case own
    then show ?thesis by simp
  next
    case child
    let ?sr = "spawn path argv"
    note m = main_passes_on [OF child(3), of lg]
    have "TargetExecd p a \<notin> set (child_events ?sr)" for p a
    proof
      assume "TargetExecd p a \<in> set (child_events ?sr)"
      then have "TargetExecd p a \<in> set (foreign (child_events ?sr))" by (simp add: in_foreign)
      with child(2) have "TargetExecd p a \<in> set (fst r)" by (simp flip: child(2) add: in_foreign)
      with m none [of p a] show False by simp
    qed
    with child m show ?thesis by blast
  qed
qed

lemma main_fails_nonzero:
  assumes sup: "supervised spawn r"
    and ch: "\<And>path argv. fails_nonzero (spawn path argv)"
  shows "fails_nonzero (Exited (fst (main (lg, r))) (snd (main (lg, r))))"
  unfolding fails_nonzero_def
proof
  assume "\<forall>p a. TargetExecd p a \<notin> set (child_events (Exited (fst (main (lg, r))) (snd (main (lg, r)))))"
  then have none: "\<And>p a. TargetExecd p a \<notin> set (fst (main (lg, r)))" by simp
  from main_fails [OF sup none] have "0 < snd (main (lg, r)) \<and> snd (main (lg, r)) < 256"
  proof (elim disjE conjE exE)
    assume "printed_failure (snd r)"
    from main_printed_failure [OF this, of lg] show ?thesis by auto
  next
    fix path argv
    assume c: "start_err (spawn path argv) = None"
      "\<forall>p a. TargetExecd p a \<notin> set (child_events (spawn path argv))"
      "main (lg, r) = (fst r, case wait_err (spawn path argv) of None \<Rightarrow> 0
                                   | Some e \<Rightarrow> os_Exit (the (errors_As_ExitError e)))"
    with ch [of path argv] obtain evs n where "spawn path argv = Exited evs n" "0 < n" "n < 256"
      unfolding fails_nonzero_def by auto
    with c(3) show ?thesis by (simp add: os_Exit_def)
  qed
  then show "(\<exists>m. Exited (fst (main (lg, r))) (snd (main (lg, r))) = StartFails m) \<or>
        (\<exists>evs n. Exited (fst (main (lg, r))) (snd (main (lg, r))) = Exited evs n \<and> 0 < n \<and> n < 256)"
    by simp
qed

lemma main_fails_loudly:
  assumes sup: "supervised spawn r"
    and ch: "\<And>path argv. fails_loudly (spawn path argv)"
    and lg: "\<And>lvl. lg = Some lvl \<Longrightarrow> Enabled lvl LevelInfo"
  shows "fails_loudly (Exited (fst (main (lg, r))) (snd (main (lg, r))))"
  unfolding fails_loudly_def
proof
  assume "\<forall>p a. TargetExecd p a \<notin> set (child_events (Exited (fst (main (lg, r))) (snd (main (lg, r)))))"
  then have none: "\<And>p a. TargetExecd p a \<notin> set (fst (main (lg, r)))" by simp
  from main_fails [OF sup none]
  have "0 < snd (main (lg, r)) \<and> snd (main (lg, r)) < 256 \<and>
        (\<exists>e\<in>set (fst (main (lg, r))). error_output e)"
  proof (elim disjE conjE exE)
    assume pf: "printed_failure (snd r)"
    have "\<exists>e. error_output e \<and> fst (main (lg, r)) = fst r @ [e]"
      by (rule main_printed_failure_loud [OF pf]) (rule lg)
    with main_printed_failure [OF pf, of lg] show ?thesis by auto
  next
    fix path argv
    assume c: "start_err (spawn path argv) = None"
      "foreign (fst r) = foreign (child_events (spawn path argv))"
      "\<forall>p a. TargetExecd p a \<notin> set (child_events (spawn path argv))"
      "main (lg, r) = (fst r, case wait_err (spawn path argv) of None \<Rightarrow> 0
                                   | Some e \<Rightarrow> os_Exit (the (errors_As_ExitError e)))"
    with ch [of path argv] obtain evs n e where
      sr: "spawn path argv = Exited evs n" "0 < n" "n < 256" and e: "e \<in> set evs" "error_output e"
      unfolding fails_loudly_def by auto
    from e sr have "e \<in> set (foreign (child_events (spawn path argv)))"
      by (simp add: in_foreign error_output_foreign)
    with c(2) have "e \<in> set (fst r)" by (simp flip: c(2) add: in_foreign)
    with c(4) sr e(2) show ?thesis by (auto simp add: os_Exit_def)
  qed
  then show "(\<exists>m. Exited (fst (main (lg, r))) (snd (main (lg, r))) = StartFails m) \<or>
        (\<exists>evs n. Exited (fst (main (lg, r))) (snd (main (lg, r))) = Exited evs n \<and> 0 < n \<and> n < 256 \<and>
           (\<exists>e\<in>set evs. error_output e))"
    by simp
qed

lemma main_run: "main (run w spawn argv) = main (fst (run w spawn argv), snd (run w spawn argv))"
  by simp

lemma self_process_exits_as:
  assumes "\<And>path argv. exits_as p a N (spawn path argv)" "0 < N" "N < 256"
  shows "exits_as p a N (self_process w spawn path argv)"
proof (cases "start_self w argv")
  case None
  then show ?thesis
    using main_exits_as [where r = "snd (run w spawn argv)" and lg = "fst (run w spawn argv)",
        OF supervised_run assms]
    by (simp add: self_process_def Let_def)
next
  case (Some m)
  then show ?thesis by (simp add: self_process_def exits_as_def)
qed

lemma self_process_fails_nonzero:
  assumes "\<And>path argv. fails_nonzero (spawn path argv)"
  shows "fails_nonzero (self_process w spawn path argv)"
proof (cases "start_self w argv")
  case None
  then show ?thesis
    using main_fails_nonzero [where r = "snd (run w spawn argv)" and lg = "fst (run w spawn argv)",
        OF supervised_run assms]
    by (simp add: self_process_def Let_def)
next
  case (Some m)
  then show ?thesis by (simp add: self_process_def fails_nonzero_def)
qed

lemma self_process_fails_loudly:
  assumes "\<And>path argv. fails_loudly (spawn path argv)" and "talkative w"
  shows "fails_loudly (self_process w spawn path argv)"
proof (cases "start_self w argv")
  case None
  have "Enabled lvl LevelInfo" if "fst (run w spawn argv) = Some lvl" for lvl
    using that assms(2) by (simp add: fst_run talkative_def)
  with None show ?thesis
    using main_fails_loudly [where r = "snd (run w spawn argv)" and lg = "fst (run w spawn argv)",
        OF supervised_run assms(1)]
    by (simp add: self_process_def Let_def)
next
  case (Some m)
  then show ?thesis by (simp add: self_process_def fails_loudly_def)
qed

lemma target_process_exits_as:
  "target w p a = TExited N \<Longrightarrow> exits_as p a N (target_process w path argv)"
  by (auto simp: exits_as_def target_process_def split: target_result.splits)

lemma target_process_fails_nonzero: "fails_nonzero (target_process w path argv)"
  by (auto simp: fails_nonzero_def target_process_def split: target_result.splits)

lemma target_process_fails_loudly: "fails_loudly (target_process w path argv)"
  by (auto simp: fails_loudly_def target_process_def split: target_result.splits)

text \<open>
  Passing on the exit status. When the program asked for was started and exits with a
  status \<open>N\<close> other than 0, the first process exits with \<open>N\<close>, and no process of the
  chain prints an error.
\<close>

lemma child_exit_code_passed_on:
  assumes "target w p a = TExited N" "0 < N" "N < 256"
    and "TargetExecd p a \<in> set (fst (wirecage w os_Args))"
  shows "snd (wirecage w os_Args) = N \<and> (\<forall>e\<in>set (fst (wirecage w os_Args)). \<not> error_output e)"
proof -
  have s3: "exits_as p a N (stage3_process w path argv)" for path argv
    unfolding stage3_process_def
    by (rule self_process_exits_as [OF target_process_exits_as assms(2,3)]) (rule assms(1))
  have s2: "exits_as p a N (stage2_process w path argv)" for path argv
    unfolding stage2_process_def
    by (rule self_process_exits_as [OF s3 assms(2,3)])
  from main_exits_as [where r = "snd (run w (stage2_process w) os_Args)"
      and lg = "fst (run w (stage2_process w) os_Args)", OF supervised_run s2 assms(2,3)] assms(4)
  show ?thesis
    by (simp add: exits_as_def wirecage_def)
qed

text \<open>
  When the program asked for was never started, the first process exits with a status
  other than 0.
\<close>

lemma failure_exits_nonzero:
  assumes "\<forall>p a. TargetExecd p a \<notin> set (fst (wirecage w os_Args))"
  shows "snd (wirecage w os_Args) \<noteq> 0"
proof -
  have s3: "fails_nonzero (stage3_process w path argv)" for path argv
    unfolding stage3_process_def
    by (rule self_process_fails_nonzero [OF target_process_fails_nonzero])
  have s2: "fails_nonzero (stage2_process w path argv)" for path argv
    unfolding stage2_process_def
    by (rule self_process_fails_nonzero [OF s3])
  from main_fails_nonzero [where r = "snd (run w (stage2_process w) os_Args)"
      and lg = "fst (run w (stage2_process w) os_Args)", OF supervised_run s2] assms
  show ?thesis
    by (auto simp add: fails_nonzero_def wirecage_def)
qed

text \<open>
  The diagnostic is printed as long as every process of the run logs at \<^verbatim>\<open>debug\<close> or
  \<^verbatim>\<open>info\<close>.
\<close>

lemma failure_printed_when_talkative:
  assumes "talkative w"
    and "\<forall>p a. TargetExecd p a \<notin> set (fst (wirecage w os_Args))"
  shows "\<exists>e\<in>set (fst (wirecage w os_Args)). error_output e"
proof -
  have s3: "fails_loudly (stage3_process w path argv)" for path argv
    unfolding stage3_process_def
    by (rule self_process_fails_loudly [OF target_process_fails_loudly assms(1)])
  have s2: "fails_loudly (stage2_process w path argv)" for path argv
    unfolding stage2_process_def
    by (rule self_process_fails_loudly [OF s3 assms(1)])
  have "Enabled lvl LevelInfo" if "fst (run w (stage2_process w) os_Args) = Some lvl" for lvl
    using that assms(1) by (simp add: fst_run talkative_def)
  from main_fails_loudly [where r = "snd (run w (stage2_process w) os_Args)"
      and lg = "fst (run w (stage2_process w) os_Args)", OF supervised_run s2 this] assms(2)
  show ?thesis
    by (auto simp add: fails_loudly_def wirecage_def)
qed

lemmas run_unfold =
  run_def parse_level_def HasPrefix_def default_Command_def slog_def Enabled_def
  stage1_def emit_def target_ids_def cmd_Run_def cmd_Start_Wait_def stage2_Args_def stage2_attr_def
  stage2_def and_then_def newWgProxy_def call_def check_def invoke_def namespace_setup_def
  deferred_def ignoring_def only_if_def data_plane_def stage3_Args_def stage3_attr_def
  stage3_def main_def log_Fatal_def os_Exit_def Let_def

lemmas process_unfold =
  wirecage_def stage2_process_def stage3_process_def self_process_def target_process_def

text \<open>
  C2 fails on the code in its second half. With \<^verbatim>\<open>--log-level error\<close> and without
  \<^verbatim>\<open>--wg-endpoint\<close>, the second stage returns the error of the missing option and
  \<^verbatim>\<open>main\<close> calls \<^verbatim>\<open>log.Fatal\<close>; the handler that \<^verbatim>\<open>slog.SetDefault\<close> installed
  drops the line, and the first process passes the exit status on without a word: the
  run exits with 1, the program asked for never started, nothing printed.
\<close>

theorem supervisor_failure_not_printed:
  "run silent_world (stage3_process silent_world)
     (stage2_Args silent_world 1000 1000 (tl silent_Args)) =
     (Some LevelError, [], Err (Errorf ''--wg-endpoint is required'')) \<and>
   snd (wirecage silent_world silent_Args) = 1 \<and>
   \<not> list_ex printed (fst (wirecage silent_world silent_Args)) \<and>
   (\<forall>p a. TargetExecd p a \<notin> set (fst (wirecage silent_world silent_Args)))"
  by (simp add: silent_world_def silent_Args_def demo_world_def demo_args_def
      run_unfold process_unfold)

section \<open>Stage dispatch\<close>

lemma HasPrefix_Cons_Cons: "HasPrefix (c # s) (d # p) \<longleftrightarrow> c = d \<and> HasPrefix s p"
  by (auto simp: HasPrefix_def)

lemma HasPrefix_Nil: "HasPrefix s []"
  by (simp add: HasPrefix_def)

lemma HasPrefix_Nil_Cons: "\<not> HasPrefix [] (d # p)"
  by (simp add: HasPrefix_def)

text \<open>
  C3, as the code has it. \<^verbatim>\<open>run\<close> selects the stage by \<^verbatim>\<open>os.Args[0]\<close>, the name the
  process was started under, and by nothing after it: under a name without the prefix
  \<^verbatim>\<open>httptap.stage.\<close> it runs the first stage, which passes the arguments after the
  name on; under \<^verbatim>\<open>httptap.stage.3\<close> it runs the third; under every other name with
  the prefix it runs the second. The argument vector that the first stage builds for its
  child has such a name (\<^verbatim>\<open>httptap.stage.2\<close>), and the one that the second stage
  builds is named \<^verbatim>\<open>httptap.stage.3\<close>. (A log level that does not parse ends
  \<^verbatim>\<open>run\<close> before the stage is looked at.)
\<close>

theorem stage_dispatch:
  assumes "parse_level (strings_ToLower w (LogLevel (MustParse w (a0 # rest)))) = Some lvl"
  shows "(\<not> HasPrefix a0 ''httptap.stage.'' \<longrightarrow>
            run w spawn (a0 # rest) =
              (Some lvl, stage1 w spawn lvl (default_Command (MustParse w (a0 # rest))) rest)) \<and>
         (a0 = ''httptap.stage.3'' \<longrightarrow>
            run w spawn (a0 # rest) =
              (Some lvl, stage3 w spawn lvl (default_Command (MustParse w (a0 # rest))))) \<and>
         (HasPrefix a0 ''httptap.stage.'' \<and> a0 \<noteq> ''httptap.stage.3'' \<longrightarrow>
            run w spawn (a0 # rest) =
              (Some lvl, stage2 w spawn lvl (default_Command (MustParse w (a0 # rest))))) \<and>
         HasPrefix (hd (stage2_Args w uid gid rest')) ''httptap.stage.'' \<and>
         hd (stage2_Args w uid gid rest') \<noteq> ''httptap.stage.3'' \<and>
         hd (stage3_Args w a) = ''httptap.stage.3''"
proof (intro conjI impI)
  assume "\<not> HasPrefix a0 ''httptap.stage.''"
  with assms show "run w spawn (a0 # rest) =
      (Some lvl, stage1 w spawn lvl (default_Command (MustParse w (a0 # rest))) rest)"
    by (simp add: run_def Let_def)
next
  assume "a0 = ''httptap.stage.3''"
  with assms show "run w spawn (a0 # rest) =
      (Some lvl, stage3 w spawn lvl (default_Command (MustParse w (a0 # rest))))"
    by (simp add: run_def Let_def HasPrefix_Cons_Cons HasPrefix_Nil)
next
  assume "HasPrefix a0 ''httptap.stage.'' \<and> a0 \<noteq> ''httptap.stage.3''"
  with assms show "run w spawn (a0 # rest) =
      (Some lvl, stage2 w spawn lvl (default_Command (MustParse w (a0 # rest))))"
    by (simp add: run_def Let_def)
qed (simp_all add: stage2_Args_def stage3_Args_def HasPrefix_Cons_Cons HasPrefix_Nil)

theorem stage_dispatch_witness:
  "parse_level (strings_ToLower demo_world (LogLevel (MustParse demo_world [''wirecage'', ''--'', ''sh'']))) =
     Some LevelInfo \<and>
   \<not> HasPrefix ''wirecage'' ''httptap.stage.'' \<and>
   run demo_world (stage2_process demo_world) [''wirecage'', ''--'', ''sh''] =
     (Some LevelInfo, stage1 demo_world (stage2_process demo_world) LevelInfo demo_args [''--'', ''sh'']) \<and>
   run demo_world (target_process demo_world) [''httptap.stage.3'', ''--'', ''sh''] =
     (Some LevelInfo, stage3 demo_world (target_process demo_world) LevelInfo demo_args) \<and>
   HasPrefix ''httptap.stage.2'' ''httptap.stage.'' \<and> ''httptap.stage.2'' \<noteq> ''httptap.stage.3'' \<and>
   run demo_world (stage3_process demo_world) [''httptap.stage.2'', ''--'', ''sh''] =
     (Some LevelInfo, stage2 demo_world (stage3_process demo_world) LevelInfo demo_args)"
proof -
  have p: "parse_level (strings_ToLower demo_world (LogLevel (MustParse demo_world (a0 # rest)))) =
      Some LevelInfo" for a0 rest
    by (simp add: demo_world_def demo_args_def parse_level_def)
  have d: "default_Command (MustParse demo_world argv) = demo_args" for argv
    by (simp add: demo_world_def demo_args_def default_Command_def)
  have h: "\<not> HasPrefix ''wirecage'' ''httptap.stage.''"
    "HasPrefix ''httptap.stage.2'' ''httptap.stage.''" "''httptap.stage.2'' \<noteq> ''httptap.stage.3''"
    by (simp_all add: HasPrefix_Cons_Cons HasPrefix_Nil)
  from stage_dispatch [OF p, of "''wirecage''" "stage2_process demo_world" "[''--'', ''sh'']"]
    stage_dispatch [OF p, of "''httptap.stage.3''" "target_process demo_world" "[''--'', ''sh'']"]
    stage_dispatch [OF p, of "''httptap.stage.2''" "stage3_process demo_world" "[''--'', ''sh'']"]
    h p [of "''wirecage''" "[''--'', ''sh'']"]
  show ?thesis by (simp add: d)
qed

text \<open>
  C3 as the specification states it fails. Started as \<^verbatim>\<open>stage2\<close> or as
  \<^verbatim>\<open>stage3\<close>, or with one of them as the first argument after the name, the binary
  runs the first stage (it logs so and starts \<^verbatim>\<open>httptap.stage.2\<close>, passing the
  argument on); and a name that is neither of the two values, \<^verbatim>\<open>httptap.stage.x\<close>,
  runs the second stage.
\<close>

theorem stage_dispatch_counterexample:
  "fst (snd (run debug_world (\<lambda>p a. StartFails ''not started'') [''stage2''])) =
     [Slog LevelDebug ''at first stage, launching second stage in a new user namespace...'',
      Start ''/proc/self/exe'' [''httptap.stage.2'', ''--uid'', ''1000'', ''--gid'', ''1000'']
        (Some (stage2_attr debug_world))] \<and>
   fst (snd (run debug_world (\<lambda>p a. StartFails ''not started'') [''stage3''])) =
     [Slog LevelDebug ''at first stage, launching second stage in a new user namespace...'',
      Start ''/proc/self/exe'' [''httptap.stage.2'', ''--uid'', ''1000'', ''--gid'', ''1000'']
        (Some (stage2_attr debug_world))] \<and>
   fst (snd (run debug_world (\<lambda>p a. StartFails ''not started'') [''wirecage'', ''stage2''])) =
     [Slog LevelDebug ''at first stage, launching second stage in a new user namespace...'',
      Start ''/proc/self/exe''
        [''httptap.stage.2'', ''--uid'', ''1000'', ''--gid'', ''1000'', ''stage2'']
        (Some (stage2_attr debug_world))] \<and>
   hd (fst (snd (run debug_world (\<lambda>p a. StartFails ''not started'') [''httptap.stage.x'']))) =
     Slog LevelDebug ''at second stage''"
  by (simp add: debug_world_def demo_world_def demo_args_def run_unfold)

section \<open>Privilege drop\<close>

lemma slog_no_Start: "list_ex is_Start (slog lvl l m @ tr) = list_ex is_Start tr"
  by (simp add: slog_def)




lemma slog_alone:
  "list_ex is_Start (slog lvl l m) = False" "find is_Start (slog lvl l m) = None"
  "before_exec (slog lvl l m) = slog lvl l m" "cred_calls (slog lvl l m) = []"
  by (simp_all add: slog_def before_exec_def)








section \<open>Failures of the namespace set-up\<close>

lemma fst_and_then: "fst (and_then r wrap k) = fst r @ (case snd r of Ok \<Rightarrow> fst k | Err e \<Rightarrow> [] | Panic m \<Rightarrow> [])"
  by (simp add: and_then_def split: ret.splits)

lemma snd_and_then: "snd (and_then r wrap k) = (case snd r of Ok \<Rightarrow> snd k | Err e \<Rightarrow> Err (wrap e) | Panic m \<Rightarrow> Panic m)"
  by (simp add: and_then_def split: ret.splits)

lemma newWgProxy_no_Start: "\<not> list_ex is_Start (fst (newWgProxy w ip priv pub ep))"
  by (simp add: newWgProxy_def fst_call fst_check fst_invoke split: option.splits)

lemma namespace_setup_fatal:
  assumes "answer w unix_Unshare_CLONE_NEWNET \<noteq> None \<or>
      answer w (water_New (Tun a)) \<noteq> None \<or>
      answer w (netlink_LinkByName (Tun a)) \<noteq> None \<or>
      answer w (netlink_LinkSetUp (Tun a)) \<noteq> None \<or>
      netlink_ParseIPNet w (Subnet a) \<noteq> None \<or>
      answer w (netlink_AddrAdd (Tun a) (Subnet a)) \<noteq> None \<or>
      netlink_ParseIPNet w ''0.0.0.0/0'' \<noteq> None \<or>
      answer w (netlink_RouteAdd ''0.0.0.0/0'') \<noteq> None"
  shows "printed_failure (snd (namespace_setup w lvl a k)) \<and>
         \<not> list_ex is_Start (fst (namespace_setup w lvl a k))"
  using assms unfolding namespace_setup_def
  by (auto simp add: fst_call snd_call fst_check snd_check fst_invoke snd_invoke fst_deferred
      snd_deferred fst_emit snd_emit slog_no_Start slog_alone split: option.splits)

lemma stage2_fatal:
  assumes f: "answer w unix_Unshare_CLONE_NEWNET \<noteq> None \<or>
      answer w (water_New (Tun a)) \<noteq> None \<or>
      answer w (netlink_LinkByName (Tun a)) \<noteq> None \<or>
      answer w (netlink_LinkSetUp (Tun a)) \<noteq> None \<or>
      netlink_ParseIPNet w (Subnet a) \<noteq> None \<or>
      answer w (netlink_AddrAdd (Tun a) (Subnet a)) \<noteq> None \<or>
      netlink_ParseIPNet w ''0.0.0.0/0'' \<noteq> None \<or>
      answer w (netlink_RouteAdd ''0.0.0.0/0'') \<noteq> None"
  shows "printed_failure (snd (stage2 w spawn lvl a)) \<and>
         \<not> list_ex is_Start (fst (stage2 w spawn lvl a))"
proof -
  let ?k = "data_plane w lvl a
              (emit (slog lvl LevelDebug ''launching third stage targetting uid, gid...'')
              (cmd_Start_Wait spawn ''/proc/self/exe'' (stage3_Args w a) (Some (stage3_attr a))
                 (Wrapf ''error starting third stage subprocess'')
                 (Wrapf ''error running subprocess'')))"
  note ns = namespace_setup_fatal [OF f, of lvl ?k]
  have wg: "printed_failure (snd (and_then (newWgProxy w (WgIP a) priv (WgPubKey a) (WgEndpoint a))
                (Wrapf ''could not make wg prox'') (namespace_setup w lvl a ?k)))" for priv
    using ns newWgProxy_ends [of w "WgIP a" priv "WgPubKey a" "WgEndpoint a"]
    by (cases "snd (newWgProxy w (WgIP a) priv (WgPubKey a) (WgEndpoint a))")
       (simp_all add: snd_and_then)
  have wg': "\<not> list_ex is_Start (fst (and_then (newWgProxy w (WgIP a) priv (WgPubKey a) (WgEndpoint a))
                (Wrapf ''could not make wg prox'') (namespace_setup w lvl a ?k)))" for priv
    using ns newWgProxy_no_Start [of w "WgIP a" priv "WgPubKey a" "WgEndpoint a"]
    by (cases "snd (newWgProxy w (WgIP a) priv (WgPubKey a) (WgEndpoint a))")
       (simp_all add: fst_and_then)
  have "printed_failure (snd (stage2 w spawn lvl a))"
    using wg by (simp add: stage2_def snd_emit split: sum.splits)
  moreover have "\<not> list_ex is_Start (fst (stage2 w spawn lvl a))"
    using wg' by (simp add: stage2_def fst_emit slog_no_Start slog_alone split: sum.splits)
  ultimately show ?thesis ..
qed

lemma apart_from_refl: "apart_from x k k"
  by (simp add: apart_from_def)

lemma apart_from_call:
  "answer w' f = answer w f \<Longrightarrow> apart_from x k' k \<Longrightarrow>
   apart_from x (call w' f wrap k') (call w f wrap k)"
  by (simp add: apart_from_def fst_call snd_call split: option.splits)

lemma apart_from_check:
  "r' = r \<Longrightarrow> apart_from x k' k \<Longrightarrow> apart_from x (check r' wrap k') (check r wrap k)"
  by (simp add: apart_from_def fst_check snd_check split: option.splits)

lemma apart_from_invoke: "apart_from x k' k \<Longrightarrow> apart_from x (invoke f k') (invoke f k)"
  by (simp add: apart_from_def fst_invoke snd_invoke)

lemma apart_from_deferred: "apart_from x k' k \<Longrightarrow> apart_from x (deferred f k') (deferred f k)"
  by (simp add: apart_from_def fst_deferred snd_deferred)

lemma apart_from_emit: "apart_from x k' k \<Longrightarrow> apart_from x (emit evs k') (emit evs k)"
  by (simp add: apart_from_def fst_emit snd_emit)

text \<open>A call whose error is only logged: the answer makes no difference but the record.\<close>

lemma apart_from_ignoring:
  "apart_from (Slog l m) k' k \<Longrightarrow>
   apart_from (Slog l m) (ignoring w' f (slog lvl l m) k') (ignoring w f (slog lvl l m) k)"
  by (simp add: apart_from_def fst_ignoring snd_ignoring slog_def split: option.splits)

lemma apart_from_only_if:
  "b' = b \<Longrightarrow> (\<And>j j'. apart_from x j' j \<Longrightarrow> apart_from x (step' j') (step j)) \<Longrightarrow>
   apart_from x k' k \<Longrightarrow> apart_from x (only_if b' step' k') (only_if b step k)"
  by (simp add: only_if_def)

lemma apart_from_and_then:
  "r' = r \<Longrightarrow> apart_from x k' k \<Longrightarrow> apart_from x (and_then r' wrap k') (and_then r wrap k)"
  by (simp add: apart_from_def fst_and_then snd_and_then split: ret.splits)

lemmas apart_from_steps = apart_from_call apart_from_check apart_from_invoke apart_from_deferred
  apart_from_emit apart_from_ignoring apart_from_only_if

lemma no_ipv6_namespace_setup:
  "apart_from (Slog LevelDebug ''error creating default ipv6 route, ignoring'') k' k \<Longrightarrow>
   apart_from (Slog LevelDebug ''error creating default ipv6 route, ignoring'')
     (namespace_setup (w\<lparr>answer := (answer w)(netlink_RouteAdd ''::/0'' := r)\<rparr>) lvl a k')
     (namespace_setup w lvl a k)"
  unfolding namespace_setup_def
  by (intro apart_from_steps) simp_all

lemma no_ipv6_data_plane:
  "apart_from x k' k \<Longrightarrow>
   apart_from x (data_plane (w\<lparr>answer := (answer w)(netlink_RouteAdd ''::/0'' := r)\<rparr>) lvl a k') (data_plane w lvl a k)"
  unfolding data_plane_def
  by (intro apart_from_steps) simp_all

lemma no_ipv6_newWgProxy:
  "newWgProxy (w\<lparr>answer := (answer w)(netlink_RouteAdd ''::/0'' := r)\<rparr>) ip priv pub ep = newWgProxy w ip priv pub ep"
  by (simp add: newWgProxy_def call_def split: option.splits)

lemma no_ipv6_stage2:
  "apart_from (Slog LevelDebug ''error creating default ipv6 route, ignoring'')
     (stage2 (w\<lparr>answer := (answer w)(netlink_RouteAdd ''::/0'' := r)\<rparr>) spawn lvl a) (stage2 w spawn lvl a)"
proof -
  let ?w = "w\<lparr>answer := (answer w)(netlink_RouteAdd ''::/0'' := r)\<rparr>"
  let ?x = "Slog LevelDebug ''error creating default ipv6 route, ignoring''"
  have tl: "apart_from ?x
      (and_then (newWgProxy ?w (WgIP a) priv (WgPubKey a) (WgEndpoint a))
         (Wrapf ''could not make wg prox'')
         (namespace_setup ?w lvl a
              (data_plane ?w lvl a
              (emit (slog lvl LevelDebug ''launching third stage targetting uid, gid...'')
              (cmd_Start_Wait spawn ''/proc/self/exe'' (stage3_Args ?w a) (Some (stage3_attr a))
                 (Wrapf ''error starting third stage subprocess'')
                 (Wrapf ''error running subprocess''))))))
      (and_then (newWgProxy w (WgIP a) priv (WgPubKey a) (WgEndpoint a))
         (Wrapf ''could not make wg prox'')
         (namespace_setup w lvl a
              (data_plane w lvl a
              (emit (slog lvl LevelDebug ''launching third stage targetting uid, gid...'')
              (cmd_Start_Wait spawn ''/proc/self/exe'' (stage3_Args w a) (Some (stage3_attr a))
                 (Wrapf ''error starting third stage subprocess'')
                 (Wrapf ''error running subprocess''))))))" for priv
    by (intro apart_from_and_then no_ipv6_newWgProxy no_ipv6_namespace_setup no_ipv6_data_plane
        apart_from_emit) (simp add: stage3_Args_def apart_from_refl)
  show ?thesis
    unfolding stage2_def
    by (intro apart_from_emit) (simp add: tl apart_from_refl split: sum.splits)
qed

text \<open>When every other step succeeds, the second stage starts the third.\<close>

lemma stage2_proceeds:
  assumes "WgEndpoint a \<noteq> [] \<and> WgPubKey a \<noteq> [] \<and> WgPrivKeyFile a \<noteq> [] \<and>
      os_ReadFile w (WgPrivKeyFile a) = Inr priv \<and> netip_ParseAddr w (WgIP a) = None \<and>
      base64_DecodeString w priv = None \<and> base64_DecodeString w (WgPubKey a) = None \<and>
      netlink_ParseIPNet w (Subnet a) = None \<and> netlink_ParseIPNet w ''0.0.0.0/0'' = None \<and>
      netlink_ParseIPNet w ''::/0'' = None \<and>
      (\<forall>f. f \<noteq> netlink_RouteAdd ''::/0'' \<longrightarrow> answer w f = None)"
  shows "Start ''/proc/self/exe'' (stage3_Args w a) (Some (stage3_attr a))
           \<in> set (fst (stage2 w spawn lvl a))"
    and "answer w (netlink_RouteAdd ''::/0'') \<noteq> None \<Longrightarrow>
         set (slog lvl LevelDebug ''error creating default ipv6 route, ignoring'')
           \<subseteq> set (fst (stage2 w spawn lvl a))"
proof -
  from assms have ok: "answer w f = None" if "f \<noteq> netlink_RouteAdd ''::/0''" for f
    using that by blast
  note defs = stage2_def and_then_def newWgProxy_def namespace_setup_def data_plane_def
    fst_emit fst_call fst_check fst_invoke fst_deferred fst_ignoring only_if_def
    cmd_Start_Wait_def Let_def
  from assms show "Start ''/proc/self/exe'' (stage3_Args w a) (Some (stage3_attr a))
           \<in> set (fst (stage2 w spawn lvl a))"
    by (simp add: defs ok call_def check_def invoke_def split: option.splits)
  assume "answer w (netlink_RouteAdd ''::/0'') \<noteq> None"
  with assms show "set (slog lvl LevelDebug ''error creating default ipv6 route, ignoring'')
           \<subseteq> set (fst (stage2 w spawn lvl a))"
    by (auto simp add: defs ok call_def check_def invoke_def split: option.splits)
qed

text \<open>
  C8, as the code has it. When \<^verbatim>\<open>unshare(CLONE_NEWNET)\<close>, the creation of the TUN
  device, finding its link or bringing it up, parsing or assigning the address, or
  adding the default route of IPv4 fails, the second stage ends in an error that
  \<^verbatim>\<open>main\<close> reports, exits with a status other than 0 and starts no child. The failure
  of the default route of IPv6 is the exception: whatever \<^verbatim>\<open>RouteAdd\<close> answers for
  \<^verbatim>\<open>::/0\<close>, the second stage returns the same and does the same, the debug record of
  the error apart; and when every other step succeeds, the stage starts the third stage,
  and a failure of that route is logged at debug level (the record is in the trace
  whenever the handler prints debug records).
\<close>

theorem namespace_failures_fatal:
  "(answer w unix_Unshare_CLONE_NEWNET \<noteq> None \<or>
      answer w (water_New (Tun a)) \<noteq> None \<or>
      answer w (netlink_LinkByName (Tun a)) \<noteq> None \<or>
      answer w (netlink_LinkSetUp (Tun a)) \<noteq> None \<or>
      netlink_ParseIPNet w (Subnet a) \<noteq> None \<or>
      answer w (netlink_AddrAdd (Tun a) (Subnet a)) \<noteq> None \<or>
      netlink_ParseIPNet w ''0.0.0.0/0'' \<noteq> None \<or>
      answer w (netlink_RouteAdd ''0.0.0.0/0'') \<noteq> None \<longrightarrow>
      printed_failure (snd (stage2 w spawn lvl a)) \<and>
      \<not> list_ex is_Start (fst (stage2 w spawn lvl a)) \<and>
      snd (main (lg, stage2 w spawn lvl a)) \<noteq> 0) \<and>
   snd (stage2 (w\<lparr>answer := (answer w)(netlink_RouteAdd ''::/0'' := r)\<rparr>) spawn lvl a) = snd (stage2 w spawn lvl a) \<and>
   filter (\<lambda>e. e \<noteq> Slog LevelDebug ''error creating default ipv6 route, ignoring'')
     (fst (stage2 (w\<lparr>answer := (answer w)(netlink_RouteAdd ''::/0'' := r)\<rparr>) spawn lvl a)) =
   filter (\<lambda>e. e \<noteq> Slog LevelDebug ''error creating default ipv6 route, ignoring'') (fst (stage2 w spawn lvl a)) \<and>
   (WgEndpoint a \<noteq> [] \<and> WgPubKey a \<noteq> [] \<and> WgPrivKeyFile a \<noteq> [] \<and>
      os_ReadFile w (WgPrivKeyFile a) = Inr priv \<and> netip_ParseAddr w (WgIP a) = None \<and>
      base64_DecodeString w priv = None \<and> base64_DecodeString w (WgPubKey a) = None \<and>
      netlink_ParseIPNet w (Subnet a) = None \<and> netlink_ParseIPNet w ''0.0.0.0/0'' = None \<and>
      netlink_ParseIPNet w ''::/0'' = None \<and>
      (\<forall>f. f \<noteq> netlink_RouteAdd ''::/0'' \<longrightarrow> answer w f = None) \<longrightarrow>
      Start ''/proc/self/exe'' (stage3_Args w a) (Some (stage3_attr a))
        \<in> set (fst (stage2 w spawn lvl a)) \<and>
      (answer w (netlink_RouteAdd ''::/0'') \<noteq> None \<and> Enabled lvl LevelDebug \<longrightarrow>
         Slog LevelDebug ''error creating default ipv6 route, ignoring''
           \<in> set (fst (stage2 w spawn lvl a))))"
proof (intro conjI impI)
  assume f: "answer w unix_Unshare_CLONE_NEWNET \<noteq> None \<or>
      answer w (water_New (Tun a)) \<noteq> None \<or>
      answer w (netlink_LinkByName (Tun a)) \<noteq> None \<or>
      answer w (netlink_LinkSetUp (Tun a)) \<noteq> None \<or>
      netlink_ParseIPNet w (Subnet a) \<noteq> None \<or>
      answer w (netlink_AddrAdd (Tun a) (Subnet a)) \<noteq> None \<or>
      netlink_ParseIPNet w ''0.0.0.0/0'' \<noteq> None \<or>
      answer w (netlink_RouteAdd ''0.0.0.0/0'') \<noteq> None"
  from stage2_fatal [OF f] show pf: "printed_failure (snd (stage2 w spawn lvl a))"
    and "\<not> list_ex is_Start (fst (stage2 w spawn lvl a))"
    by simp_all
  from main_printed_failure [where r = "stage2 w spawn lvl a" and lg = lg, OF pf]
  show "snd (main (lg, stage2 w spawn lvl a)) \<noteq> 0"
    by auto
next
  from no_ipv6_stage2 [where r = r and w = w and spawn = spawn and lvl = lvl and a = a]
  show "snd (stage2 (w\<lparr>answer := (answer w)(netlink_RouteAdd ''::/0'' := r)\<rparr>) spawn lvl a) = snd (stage2 w spawn lvl a)"
    and "filter (\<lambda>e. e \<noteq> Slog LevelDebug ''error creating default ipv6 route, ignoring'')
       (fst (stage2 (w\<lparr>answer := (answer w)(netlink_RouteAdd ''::/0'' := r)\<rparr>) spawn lvl a)) =
     filter (\<lambda>e. e \<noteq> Slog LevelDebug ''error creating default ipv6 route, ignoring'') (fst (stage2 w spawn lvl a))"
    by (simp_all add: apart_from_def)
next
  assume o: "WgEndpoint a \<noteq> [] \<and> WgPubKey a \<noteq> [] \<and> WgPrivKeyFile a \<noteq> [] \<and>
      os_ReadFile w (WgPrivKeyFile a) = Inr priv \<and> netip_ParseAddr w (WgIP a) = None \<and>
      base64_DecodeString w priv = None \<and> base64_DecodeString w (WgPubKey a) = None \<and>
      netlink_ParseIPNet w (Subnet a) = None \<and> netlink_ParseIPNet w ''0.0.0.0/0'' = None \<and>
      netlink_ParseIPNet w ''::/0'' = None \<and>
      (\<forall>f. f \<noteq> netlink_RouteAdd ''::/0'' \<longrightarrow> answer w f = None)"
  from stage2_proceeds(1) [OF o]
  show "Start ''/proc/self/exe'' (stage3_Args w a) (Some (stage3_attr a))
        \<in> set (fst (stage2 w spawn lvl a))" .
  assume l: "answer w (netlink_RouteAdd ''::/0'') \<noteq> None \<and> Enabled lvl LevelDebug"
  then have "answer w (netlink_RouteAdd ''::/0'') \<noteq> None" ..
  from stage2_proceeds(2) [OF o this] l
  show "Slog LevelDebug ''error creating default ipv6 route, ignoring''
           \<in> set (fst (stage2 w spawn lvl a))"
    by (auto simp add: slog_def)
qed

theorem namespace_failures_fatal_witness:
  "answer no_route_world (netlink_RouteAdd ''0.0.0.0/0'') \<noteq> None \<and>
   printed_failure (snd (stage2 no_route_world (stage3_process no_route_world) LevelDebug demo_args)) \<and>
   \<not> list_ex is_Start (fst (stage2 no_route_world (stage3_process no_route_world) LevelDebug demo_args)) \<and>
   snd (main (Some LevelDebug, stage2 no_route_world (stage3_process no_route_world) LevelDebug demo_args)) \<noteq> 0 \<and>
   answer no_ipv6_world (netlink_RouteAdd ''::/0'') \<noteq> None \<and> Enabled LevelDebug LevelDebug \<and>
   Start ''/proc/self/exe'' (stage3_Args no_ipv6_world demo_args) (Some (stage3_attr demo_args))
     \<in> set (fst (stage2 no_ipv6_world (stage3_process no_ipv6_world) LevelDebug demo_args)) \<and>
   Slog LevelDebug ''error creating default ipv6 route, ignoring''
     \<in> set (fst (stage2 no_ipv6_world (stage3_process no_ipv6_world) LevelDebug demo_args))"
proof -
  have h: "answer no_route_world (netlink_RouteAdd ''0.0.0.0/0'') \<noteq> None"
    by (simp add: no_route_world_def)
  have l: "answer no_ipv6_world (netlink_RouteAdd ''::/0'') \<noteq> None \<and> Enabled LevelDebug LevelDebug"
    by (simp add: no_ipv6_world_def Enabled_def)
  have o: "WgEndpoint demo_args \<noteq> [] \<and> WgPubKey demo_args \<noteq> [] \<and> WgPrivKeyFile demo_args \<noteq> [] \<and>
      os_ReadFile no_ipv6_world (WgPrivKeyFile demo_args) = Inr ''a2V5'' \<and>
      netip_ParseAddr no_ipv6_world (WgIP demo_args) = None \<and>
      base64_DecodeString no_ipv6_world ''a2V5'' = None \<and>
      base64_DecodeString no_ipv6_world (WgPubKey demo_args) = None \<and>
      netlink_ParseIPNet no_ipv6_world (Subnet demo_args) = None \<and>
      netlink_ParseIPNet no_ipv6_world ''0.0.0.0/0'' = None \<and>
      netlink_ParseIPNet no_ipv6_world ''::/0'' = None \<and>
      (\<forall>f. f \<noteq> netlink_RouteAdd ''::/0'' \<longrightarrow> answer no_ipv6_world f = None)"
    by (simp add: no_ipv6_world_def demo_world_def demo_args_def)
  from h namespace_failures_fatal [where w = no_route_world and a = demo_args
      and spawn = "stage3_process no_route_world" and lvl = LevelDebug and lg = "Some LevelDebug"]
  have "printed_failure (snd (stage2 no_route_world (stage3_process no_route_world) LevelDebug demo_args)) \<and>
   \<not> list_ex is_Start (fst (stage2 no_route_world (stage3_process no_route_world) LevelDebug demo_args)) \<and>
   snd (main (Some LevelDebug, stage2 no_route_world (stage3_process no_route_world) LevelDebug demo_args)) \<noteq> 0"
    by blast
  moreover from o l namespace_failures_fatal [where w = no_ipv6_world and a = demo_args
      and spawn = "stage3_process no_ipv6_world" and lvl = LevelDebug and priv = "''a2V5''"]
  have "Start ''/proc/self/exe'' (stage3_Args no_ipv6_world demo_args) (Some (stage3_attr demo_args))
     \<in> set (fst (stage2 no_ipv6_world (stage3_process no_ipv6_world) LevelDebug demo_args)) \<and>
   Slog LevelDebug ''error creating default ipv6 route, ignoring''
     \<in> set (fst (stage2 no_ipv6_world (stage3_process no_ipv6_world) LevelDebug demo_args))"
    by blast
  ultimately show ?thesis
    using h l by blast
qed

text \<open>
  C8 as the specification states it fails for the default route of IPv6: in a world
  where adding it fails, the second stage starts the third, the program asked for runs,
  and what the stage returns is the exit status of that program.
\<close>

theorem namespace_failures_fatal_counterexample:
  "answer no_ipv6_world (netlink_RouteAdd ''::/0'') = Some ''address family not supported'' \<and>
   Start ''/proc/self/exe''
     [''httptap.stage.3'', ''--uid'', ''1000'', ''--gid'', ''1000'', ''--'', ''sh'', ''-c'', ''exit 42'']
     (Some (stage3_attr demo_args))
     \<in> set (fst (stage2 no_ipv6_world (stage3_process no_ipv6_world) LevelInfo demo_args)) \<and>
   TargetExecd ''sh'' [''sh'', ''-c'', ''exit 42'']
     \<in> set (fst (stage2 no_ipv6_world (stage3_process no_ipv6_world) LevelInfo demo_args)) \<and>
   snd (stage2 no_ipv6_world (stage3_process no_ipv6_world) LevelInfo demo_args) =
     Err (Wrapf ''error running subprocess'' (ExitError 42))"
  by (simp add: no_ipv6_world_def demo_world_def demo_args_def run_unfold process_unfold)

section \<open>The proxy\<close>

lemma set_interleave: "set (interleave s xs ys) = set xs \<union> set ys"
  by (induction s xs ys rule: interleave.induct) auto

lemma count_list_interleave:
  "count_list (interleave s xs ys) x = count_list xs x + count_list ys x"
  by (induction s xs ys rule: interleave.induct) auto

lemma set_until_panic: "set (until_panic tr) \<subseteq> set tr"
  by (induction tr) auto

lemma until_panic_panics: "list_ex is_PPanic tr \<Longrightarrow> list_ex is_PPanic (until_panic tr)"
  by (induction tr) auto

lemma until_panic_none: "\<not> list_ex is_PPanic tr \<Longrightarrow> until_panic tr = tr"
  by (induction tr) auto

lemma list_ex_interleave: "list_ex P (interleave s xs ys) \<longleftrightarrow> list_ex P xs \<or> list_ex P ys"
  by (simp add: list_ex_iff set_interleave) blast

lemma precedes_interleave:
  "precedes a b xs \<Longrightarrow> b \<notin> set ys \<Longrightarrow> a \<in> set xs \<Longrightarrow> precedes a b (interleave s xs ys)"
proof (induction s xs ys rule: interleave.induct)
  case (1 s ys)
  then show ?case by simp
next
  case (2 s x xs)
  then show ?case by simp
next
  case (3 x xs y ys)
  then show ?case by (auto simp: precedes_def)
next
  case (4 s x xs y ys)
  then show ?case by (auto simp: precedes_def)
next
  case (5 s x xs y ys)
  then show ?case by (auto simp: precedes_def)
qed

lemma precedes_interleave2:
  "precedes a b ys \<Longrightarrow> b \<notin> set xs \<Longrightarrow> a \<in> set ys \<Longrightarrow> precedes a b (interleave s xs ys)"
proof (induction s xs ys rule: interleave.induct)
  case (1 s ys)
  then show ?case by simp
next
  case (2 s x xs)
  then show ?case by simp
next
  case (3 x xs y ys)
  then show ?case by (auto simp: precedes_def)
next
  case (4 s x xs y ys)
  then show ?case by (auto simp: precedes_def)
next
  case (5 s x xs y ys)
  then show ?case by (auto simp: precedes_def)
qed

lemma precedes_framed:
  "precedes a b tr \<Longrightarrow> a \<in> set tr \<Longrightarrow> b \<notin> set pre \<Longrightarrow> precedes a b (pre @ tr @ post)"
  by (auto simp: precedes_def takeWhile_append dest: set_takeWhileD)

lemma until_panic_quiet: "\<not> list_ex is_PPanic (until_panic tr) \<Longrightarrow> until_panic tr = tr"
  by (induction tr) (auto split: if_splits)

lemma count_WaitDone:
  "count_list (goroutine dst src t cp) WaitDone = (if cp \<noteq> None \<and> CloseWriter t then 1 else 0)"
  by (auto simp: goroutine_def proxyBytes_def split: option.splits)

lemma goroutine_done:
  "cp \<noteq> None \<Longrightarrow> CloseWriter t \<Longrightarrow>
   CopyDone src dst \<in> set (goroutine dst src t cp) \<and>
   CloseWrite dst \<in> set (goroutine dst src t cp) \<and>
   \<not> list_ex is_PPanic (goroutine dst src t cp) \<and>
   precedes (CopyDone src dst) (CloseWrite dst) (goroutine dst src t cp)"
  by (auto simp: goroutine_def proxyBytes_def precedes_def split: option.splits)

lemma goroutine_other:
  "c \<noteq> dst \<Longrightarrow> CloseWrite c \<notin> set (goroutine dst src t cp)"
  by (auto simp: goroutine_def proxyBytes_def split: option.splits)

lemma ProxyConn_returns:
  assumes net: "network = ''tcp'' \<or> network = ''udp''" and dial: "dial_err env = None"
    and cw: "CloseWriter subprocess" "CloseWriter (dialed_type network)"
    and cp: "copy_to_inner env \<noteq> None" "copy_to_outer env \<noteq> None"
  shows "snd (ProxyConn sched env network subprocess) = Returned"
    and "precedes (CopyDone Inner Outer) (CloseWrite Outer) (fst (ProxyConn sched env network subprocess))"
    and "precedes (CopyDone Outer Inner) (CloseWrite Inner) (fst (ProxyConn sched env network subprocess))"
    and "CloseWrite Outer \<in> set (fst (ProxyConn sched env network subprocess))"
    and "CloseWrite Inner \<in> set (fst (ProxyConn sched env network subprocess))"
    and "last (fst (ProxyConn sched env network subprocess)) = PSlog LevelDebug ''proxy done''"
proof -
  let ?g1 = "goroutine Inner Outer subprocess (copy_to_inner env)"
  let ?g2 = "goroutine Outer Inner (dialed_type network) (copy_to_outer env)"
  let ?tr = "interleave sched ?g1 ?g2"
  note g1 = goroutine_done [OF cp(1) cw(1), of Outer Inner]
  note g2 = goroutine_done [OF cp(2) cw(2), of Inner Outer]
  have quiet: "\<not> list_ex is_PPanic ?tr"
    using g1 g2 by (simp add: list_ex_interleave)
  then have up: "until_panic ?tr = ?tr" by (rule until_panic_none)
  have two: "count_list ?tr WaitDone = 2"
    using cw cp by (simp add: count_list_interleave count_WaitDone)
  have run: "ProxyConn sched env network subprocess =
      ([Dial network, PSlog LevelDebug ''proxy start''] @ ?tr @ [PSlog LevelDebug ''proxy done''], Returned)"
    using net dial quiet two by (simp add: ProxyConn_def Let_def up)
  show "snd (ProxyConn sched env network subprocess) = Returned"
    and "last (fst (ProxyConn sched env network subprocess)) = PSlog LevelDebug ''proxy done''"
    by (simp_all add: run)
  have o1: "CloseWrite Outer \<notin> set ?g1" "CloseWrite Inner \<notin> set ?g2"
    by (simp_all add: goroutine_other)
  have "precedes (CopyDone Inner Outer) (CloseWrite Outer) ?tr"
    using g2 o1 by (intro precedes_interleave2) simp_all
  moreover have "CopyDone Inner Outer \<in> set ?tr" using g2 by (simp add: set_interleave)
  ultimately show "precedes (CopyDone Inner Outer) (CloseWrite Outer) (fst (ProxyConn sched env network subprocess))"
    unfolding run fst_conv by (intro precedes_framed) simp_all
  have "precedes (CopyDone Outer Inner) (CloseWrite Inner) ?tr"
    using g1 o1 by (intro precedes_interleave) simp_all
  moreover have "CopyDone Outer Inner \<in> set ?tr" using g1 by (simp add: set_interleave)
  ultimately show "precedes (CopyDone Outer Inner) (CloseWrite Inner) (fst (ProxyConn sched env network subprocess))"
    unfolding run fst_conv by (intro precedes_framed) simp_all
  show "CloseWrite Outer \<in> set (fst (ProxyConn sched env network subprocess))"
    and "CloseWrite Inner \<in> set (fst (ProxyConn sched env network subprocess))"
    using g1 g2 by (simp_all add: run set_interleave)
qed

lemma ProxyConn_returns_after_copies:
  assumes "snd (ProxyConn sched env network subprocess) = Returned" and "dial_err env = None"
  shows "CopyDone Inner Outer \<in> set (fst (ProxyConn sched env network subprocess)) \<and>
         CopyDone Outer Inner \<in> set (fst (ProxyConn sched env network subprocess))"
proof -
  let ?g1 = "goroutine Inner Outer subprocess (copy_to_inner env)"
  let ?g2 = "goroutine Outer Inner (dialed_type network) (copy_to_outer env)"
  let ?tr = "until_panic (interleave sched ?g1 ?g2)"
  from assms have net: "network = ''tcp'' \<or> network = ''udp''"
    by (auto simp: ProxyConn_def split: if_splits)
  from assms net have quiet: "\<not> list_ex is_PPanic ?tr" and two: "count_list ?tr WaitDone = 2"
    by (auto simp: ProxyConn_def Let_def split: if_splits)
  from quiet have up: "?tr = interleave sched ?g1 ?g2" by (rule until_panic_quiet)
  from two have "count_list ?g1 WaitDone + count_list ?g2 WaitDone = 2"
    by (simp add: up count_list_interleave)
  then have c: "copy_to_inner env \<noteq> None \<and> CloseWriter subprocess"
      "copy_to_outer env \<noteq> None \<and> CloseWriter (dialed_type network)"
    by (auto simp add: count_WaitDone split: if_splits)
  from c have "CopyDone Outer Inner \<in> set ?g1" "CopyDone Inner Outer \<in> set ?g2"
    by (simp_all add: goroutine_done)
  then have "CopyDone Outer Inner \<in> set ?tr" "CopyDone Inner Outer \<in> set ?tr"
    by (simp_all add: up set_interleave)
  with assms net quiet two show ?thesis
    by (simp add: ProxyConn_def Let_def)
qed

text \<open>
  C6. Dial failure handling. For a flow of \<^verbatim>\<open>tcp\<close> or \<^verbatim>\<open>udp\<close> whose dial fails,
  \<^verbatim>\<open>ProxyConn\<close> logs the failure at debug level, closes the connection of the
  subprocess (and logs, again at debug level, an error of that close), starts no copy,
  and returns.
\<close>

theorem dial_failure:
  assumes "network = ''tcp'' \<or> network = ''udp''" and "dial_err env = Some m"
  shows "snd (ProxyConn sched env network subprocess) = Returned \<and>
         fst (ProxyConn sched env network subprocess) =
           [Dial network, PSlog LevelDebug ''error dialing'', Close Inner] @
           (if Close_err env = None then [] else [PSlog LevelDebug ''error proxying conn''])"
  using assms by (auto simp: ProxyConn_def split: option.splits)

theorem dial_failure_witness:
  "dial_err dial_refused = Some ''connection refused'' \<and>
   ProxyConn [] dial_refused ''tcp'' gonet_TCPConn =
     ([Dial ''tcp'', PSlog LevelDebug ''error dialing'', Close Inner], Returned) \<and>
   ProxyConn [] dial_refused ''udp'' gonet_UDPConn =
     ([Dial ''udp'', PSlog LevelDebug ''error dialing'', Close Inner], Returned)"
proof -
  have h: "dial_err dial_refused = Some ''connection refused''" and c: "Close_err dial_refused = None"
    by (simp_all add: dial_refused_def)
  from dial_failure [of "''tcp''" dial_refused "''connection refused''" "[]" gonet_TCPConn]
    dial_failure [of "''udp''" dial_refused "''connection refused''" "[]" gonet_UDPConn] h c
  show ?thesis by (simp add: prod_eq_iff)
qed

lemma goroutine_panics:
  "\<not> CloseWriter t \<Longrightarrow> list_ex is_PPanic (goroutine dst src t (Some r))"
  by (simp add: goroutine_def proxyBytes_def split: option.splits)

lemma goroutine_no_CloseWrite:
  "\<not> CloseWriter t \<Longrightarrow> CloseWrite c \<notin> set (goroutine dst src t cp)"
  by (simp add: goroutine_def proxyBytes_def split: option.splits)

lemma ProxyConn_crashes:
  assumes "network = ''tcp'' \<or> network = ''udp''" and "dial_err env = None"
    and "(\<not> CloseWriter subprocess \<and> copy_to_inner env \<noteq> None) \<or>
         (\<not> CloseWriter (dialed_type network) \<and> copy_to_outer env \<noteq> None)"
  shows "snd (ProxyConn sched env network subprocess) = Crashed"
proof -
  let ?g1 = "goroutine Inner Outer subprocess (copy_to_inner env)"
  let ?g2 = "goroutine Outer Inner (dialed_type network) (copy_to_outer env)"
  from assms(3) have "list_ex is_PPanic ?g1 \<or> list_ex is_PPanic ?g2"
    by (auto simp: goroutine_panics)
  then have "list_ex is_PPanic (until_panic (interleave sched ?g1 ?g2))"
    by (intro until_panic_panics) (simp add: list_ex_interleave)
  with assms(1,2) show ?thesis
    by (simp add: ProxyConn_def Let_def)
qed

text \<open>
  C10 fails on the code. A UDP flow reaches \<^verbatim>\<open>ProxyConn\<close> from the UDP forwarder
  with a \<^verbatim>\<open>*gonet.UDPConn\<close> on both sides. When a copy of such a flow returns, the
  assertion to \<^verbatim>\<open>CloseWriter\<close> that follows it panics, under every schedule of the
  two goroutines: the call does not return, the process ends.
\<close>

theorem udp_flow_panics:
  "snd (ProxyConn sched udp_refused ''udp'' gonet_UDPConn) = Crashed \<and>
   snd (udp_handler sched None None udp_refused) = Crashed"
proof -
  have "snd (ProxyConn sched udp_refused ''udp'' gonet_UDPConn) = Crashed"
    by (rule ProxyConn_crashes) (simp_all add: udp_refused_def dialed_type_def)
  then show ?thesis by (simp add: udp_handler_def Let_def)
qed

text \<open>
  C5 fails on the code, by the same assertion: on the UDP flow above, under every
  schedule, neither write side is ever half-closed and \<^verbatim>\<open>ProxyConn\<close> does not
  return. (For flows whose two connections are \<^verbatim>\<open>CloseWriter\<close>s the claim holds:
  \<open>ProxyConn_returns\<close> and \<open>ProxyConn_returns_after_copies\<close>.)
\<close>

theorem udp_flow_never_half_closes:
  "CloseWrite Outer \<notin> set (fst (ProxyConn sched udp_refused ''udp'' gonet_UDPConn)) \<and>
   CloseWrite Inner \<notin> set (fst (ProxyConn sched udp_refused ''udp'' gonet_UDPConn)) \<and>
   snd (ProxyConn sched udp_refused ''udp'' gonet_UDPConn) \<noteq> Returned"
proof -
  let ?g1 = "goroutine Inner Outer gonet_UDPConn (copy_to_inner udp_refused)"
  let ?g2 = "goroutine Outer Inner (dialed_type ''udp'') (copy_to_outer udp_refused)"
  have no: "CloseWrite c \<notin> set (until_panic (interleave sched ?g1 ?g2))" for c
    using set_until_panic [of "interleave sched ?g1 ?g2"]
    by (auto simp: set_interleave goroutine_no_CloseWrite dialed_type_def)
  have "snd (ProxyConn sched udp_refused ''udp'' gonet_UDPConn) = Crashed"
    by (rule ProxyConn_crashes) (simp_all add: udp_refused_def dialed_type_def)
  moreover have "CloseWrite c \<notin> set (fst (ProxyConn sched udp_refused ''udp'' gonet_UDPConn))" for c
    using no [of c] by (simp add: ProxyConn_def Let_def udp_refused_def)
  ultimately show ?thesis by simp
qed

section \<open>ICMP\<close>

text \<open>
  What the handler of ICMPv4 does with a packet: one debug record that names the sender
  and the destination, nothing sent, and \<^verbatim>\<open>false\<close>; the stack of the data plane has
  the protocol, so the handler is stored.
\<close>

lemma icmp4_log_and_drop:
  "icmp4_handler tid pb =
     ([PSlog LevelDebug (''got icmp packet '' @ RemoteAddress tid @ '' => '' @ LocalAddress tid)],
      False)"
  by (simp add: icmp4_handler_def)

lemma icmp4_handler_attached:
  "answer w fdbased_New = None \<Longrightarrow>
   handled_protocols (fst (data_plane w lvl a ([], Ok))) =
     [icmp_ProtocolNumber4, udp_ProtocolNumber, tcp_ProtocolNumber]"
  by (simp add: data_plane_def handled_protocols_def emit_def invoke_def call_def slog_def
      split: option.splits)

text \<open>
  C9 fails on the code for ICMPv6. \<^verbatim>\<open>run\<close> creates the stack with the transport
  protocols TCP, UDP and ICMPv4 only, and then calls \<^verbatim>\<open>SetTransportProtocolHandler\<close>
  for \<^verbatim>\<open>icmp.ProtocolNumber6\<close> as well: the stack has no such protocol and stores
  nothing. Whatever the world answers, once the data plane is set up no handler is
  attached for ICMPv6, so the function that logs \<^verbatim>\<open>got icmp6 packet\<close> and returns
  \<^verbatim>\<open>false\<close> is never called: an ICMPv6 packet is not logged, and what becomes of it
  is decided by the stack and not by the handler. In the world where every call
  succeeds, the call that registers the handler is made and the handlers attached are
  those of ICMPv4, UDP and TCP.
\<close>

theorem icmp6_handler_never_attached:
  "icmp_ProtocolNumber6 \<notin> set (handled_protocols (fst (data_plane w lvl a ([], Ok)))) \<and>
   Do (SetTransportProtocolHandler icmp_ProtocolNumber6)
     \<in> set (fst (data_plane demo_world LevelInfo demo_args ([], Ok))) \<and>
   handled_protocols (fst (data_plane demo_world LevelInfo demo_args ([], Ok))) =
     [icmp_ProtocolNumber4, udp_ProtocolNumber, tcp_ProtocolNumber]"
proof (intro conjI)
  show "icmp_ProtocolNumber6 \<notin> set (handled_protocols (fst (data_plane w lvl a ([], Ok))))"
    by (cases "answer w fdbased_New")
       (simp_all add: data_plane_def handled_protocols_def emit_def invoke_def call_def slog_def
         split: option.splits)
  show "Do (SetTransportProtocolHandler icmp_ProtocolNumber6)
     \<in> set (fst (data_plane demo_world LevelInfo demo_args ([], Ok)))"
    by (simp add: data_plane_def demo_world_def emit_def invoke_def call_def slog_def)
  show "handled_protocols (fst (data_plane demo_world LevelInfo demo_args ([], Ok))) =
     [icmp_ProtocolNumber4, udp_ProtocolNumber, tcp_ProtocolNumber]"
    by (simp add: data_plane_def handled_protocols_def demo_world_def emit_def invoke_def
        call_def slog_def)
qed

end
